theory Spec2Isabelle
  imports Main "HOL-Library.AList"
begin

section \<open>The relay servers: data model\<close>

text \<open>
  The repository holds two flavours of one WebSocket relay server:
  \<^verbatim>\<open>pose-tracker-websocket/server.js\<close> (deployment) and \<^verbatim>\<open>local/local-server.js\<close>
  (development). Both keep three JavaScript \<^verbatim>\<open>Map\<close>s (\<^verbatim>\<open>rooms\<close>, \<^verbatim>\<open>connections\<close>, and in
  the deployment flavour \<^verbatim>\<open>poseDataLimits\<close>) and mutate the socket objects handed to them by
  the \<^verbatim>\<open>ws\<close> library. A \<^verbatim>\<open>Map\<close> keeps insertion order and \<^verbatim>\<open>set\<close> on an existing key
  replaces the value in place, which is what \<open>AList.update\<close> does on an association list.
  Socket objects are shared between \<^verbatim>\<open>connections\<close> and the participant entries of a room,
  so they live in an explicit store \<open>sock\<close> indexed by a handle.

  Node runs one listener at a time, so a listener is a function from the state before to the
  state after. The keep-alive timer, the sweep of old limiter entries, the HTTP endpoints and
  the shutdown handler are left out: a socket that the keep-alive terminates shows up as a
  \<^verbatim>\<open>'close'\<close> event, and the sweep removes only entries whose window has long expired.

  A handler can throw: a template literal that prints a value with no conversion to a
  string, a subtraction on a value with no conversion to a number, a call of a function
  that is not defined. What has been written to the state before the throw stays written.
  Inside the \<^verbatim>\<open>'message'\<close> listener the exception is caught and answered with an
  \<^verbatim>\<open>error\<close> envelope; in the other listeners nothing catches it and the process ends.
\<close>

datatype flavor = Cloud | Local

text \<open>
  Room ids arrive either from the connection URL (a string) or from \<^verbatim>\<open>message.roomId\<close> of a
  parsed JSON frame, which may be any JSON value or missing. Numbers are modelled as
  integers. \<open>JObj i c\<close> is an object or array: a \<^verbatim>\<open>Map\<close> compares it by reference, so it
  carries its identity \<open>i\<close> (\<^verbatim>\<open>JSON.parse\<close> makes a new object for every frame, so the
  objects of different frames have different identities), and \<open>c\<close> says whether it can be
  converted to a string: a parsed object such as \<^verbatim>\<open>{"toString":1}\<close> cannot, and printing it in
  a template literal throws a TypeError.
\<close>

datatype jsval = JUndefined | JNull | JBool bool | JNum int | JStr string | JObj nat bool

fun truthy :: "jsval \<Rightarrow> bool" where
  "truthy JUndefined = False"
| "truthy JNull = False"
| "truthy (JBool b) = b"
| "truthy (JNum n) = (n \<noteq> 0)"
| "truthy (JStr s) = (s \<noteq> [])"
| "truthy (JObj i c) = True"

fun printable :: "jsval \<Rightarrow> bool" where
  "printable (JObj i c) = c"
| "printable v = True"

datatype ready_state = CONNECTING | OPEN | CLOSING | CLOSED

type_synonym conn = nat
type_synonym json = string

record ws =
  sessionId :: string
  deviceType :: string
  roomId :: jsval
  isAlive :: bool
  connectedAt :: int
  readyState :: ready_state
  capabilities :: "json option"
  deviceInfo :: "json option"

record participant =
  p_ws :: conn
  p_deviceType :: string
  joinedAt :: int

record room =
  room_id :: jsval
  created :: int
  participants :: "(string \<times> participant) list"

record limit =
  count :: nat
  resetTime :: int

text \<open>
  \<^verbatim>\<open>message.timestamp\<close> of a \<^verbatim>\<open>pose_data\<close> frame, as far as the servers look at it.
  \<open>TsValue t n\<close>: a value whose truth value is \<open>t\<close> and whose conversion to a number gives
  \<open>n\<close> (\<open>None\<close> for NaN); a missing time stamp is \<open>TsValue False None\<close>. \<open>TsThrows\<close>: an
  object with no conversion to a number, such as \<^verbatim>\<open>{"valueOf":1,"toString":1}\<close>; it counts as
  true and a subtraction on it throws a TypeError.
\<close>

datatype ts_view = TsValue bool "int option" | TsThrows

record pose_msg =
  landmarks :: json
  metadata :: json
  timestamp :: ts_view

text \<open>Frames a client can send, after \<^verbatim>\<open>JSON.parse\<close> and the read of \<^verbatim>\<open>message.type\<close>.\<close>

datatype message =
    JoinRoomMsg jsval
  | CreateRoomMsg
  | LeaveRoomMsg
  | PoseDataMsg pose_msg
  | DeviceRegisterMsg "json option" "json option"
  | PingMsg
  | GetStatsMsg
  | SyncRequestMsg jsval json
  | RoomListMsg
  | OtherMsg "string option"

text \<open>
  \<open>NotJSON\<close>: \<^verbatim>\<open>JSON.parse\<close> throws. \<open>JsonNull\<close>: the frame is the JSON text \<^verbatim>\<open>null\<close>, so
  reading \<^verbatim>\<open>message.type\<close> throws a TypeError inside the same \<^verbatim>\<open>try\<close>. \<open>Json m\<close>: any other
  JSON value; \<open>OtherMsg t\<close> stands for one whose \<^verbatim>\<open>type\<close> is none of the nine strings
  above; \<open>t\<close> is what that type prints as, \<open>None\<close> when it is an object with no conversion
  to a string.
\<close>

datatype frame = NotJSON | JsonNull | Json message

fun typeName :: "message \<Rightarrow> string option" where
  "typeName (JoinRoomMsg r) = Some ''join_room''"
| "typeName CreateRoomMsg = Some ''create_room''"
| "typeName LeaveRoomMsg = Some ''leave_room''"
| "typeName (PoseDataMsg p) = Some ''pose_data''"
| "typeName (DeviceRegisterMsg c d) = Some ''device_register''"
| "typeName PingMsg = Some ''ping''"
| "typeName GetStatsMsg = Some ''get_stats''"
| "typeName (SyncRequestMsg t b) = Some ''sync_request''"
| "typeName RoomListMsg = Some ''room_list''"
| "typeName (OtherMsg t) = t"

text \<open>Envelopes the servers send. A serialized envelope is identified with its value.\<close>

datatype envelope =
    Connected string string int string
  | RoomJoined jsval "(string \<times> string \<times> int) list" int
  | ParticipantJoined string string int
  | ParticipantLeft string string
  | PairingSuccess "string list"
  | RoomCreated jsval
  | PoseCloud string string int json json "int option"
  | PoseLocal pose_msg int "int option"
  | DeviceRegistered string "json option"
  | Pong int
  | ErrorEnv string int
  | RoomListEnv "(jsval \<times> int \<times> nat \<times> string list) list"
  | StatsEnv int nat nat nat nat "(jsval \<times> nat \<times> int) list"
  | SyncForward jsval json string

text \<open>
  \<open>sent\<close> is the chronological log of \<^verbatim>\<open>ws.send\<close> calls, \<open>serialized\<close> counts the calls of
  \<^verbatim>\<open>JSON.stringify\<close>. \<open>messageCount\<close> is \<^verbatim>\<open>messageCount\<close> of server.js and
  \<^verbatim>\<open>deviceMetrics.messagesReceived\<close> of local-server.js; the other three counters are
  the remaining fields of \<^verbatim>\<open>deviceMetrics\<close>. \<open>crashed\<close> says that an exception has left a
  listener uncaught and ended the process.
\<close>

record server =
  rooms :: "(jsval \<times> room) list"
  connections :: "(string \<times> conn) list"
  poseDataLimits :: "(string \<times> limit) list"
  sock :: "conn \<Rightarrow> ws"
  nextConn :: conn
  messageCount :: nat
  messagesSent :: nat
  totalConnections :: nat
  currentConnections :: int
  sent :: "(conn \<times> envelope) list"
  serialized :: nat
  crashed :: bool

text \<open>How a handler ends: it returns, or it throws; either way with the state it has reached.\<close>

datatype outcome = Done server | Thrown server

fun state_of :: "outcome \<Rightarrow> server" where
  "state_of (Done s) = s"
| "state_of (Thrown s) = s"

fun threw :: "outcome \<Rightarrow> bool" where
  "threw (Done s) = False"
| "threw (Thrown s) = True"

section \<open>The relay servers: operations\<close>

text \<open>\<^verbatim>\<open>send(ws, message)\<close> and \<^verbatim>\<open>sendError(ws, message)\<close>.\<close>

definition send :: "server \<Rightarrow> conn \<Rightarrow> envelope \<Rightarrow> server" where
  "send s w message =
     (if readyState (sock s w) = OPEN
      then s\<lparr>sent := sent s @ [(w, message)], serialized := serialized s + 1\<rparr>
      else s)"

definition sendError :: "server \<Rightarrow> conn \<Rightarrow> string \<Rightarrow> int \<Rightarrow> server" where
  "sendError s w message now = send s w (ErrorEnv message now)"

text \<open>
  The \<^verbatim>\<open>forEach\<close> of \<^verbatim>\<open>broadcastToRoom\<close>: one \<^verbatim>\<open>participant.ws.send(messageStr)\<close> for every
  entry whose key differs from \<^verbatim>\<open>excludeSession\<close> (\<open>None\<close> is the default \<^verbatim>\<open>null\<close>) and whose
  socket is open.
\<close>

primrec forEach_send ::
  "(conn \<Rightarrow> ws) \<Rightarrow> string option \<Rightarrow> envelope \<Rightarrow> (string \<times> participant) list \<Rightarrow>
   (conn \<times> envelope) list \<Rightarrow> (conn \<times> envelope) list" where
  "forEach_send h excludeSession messageStr [] out = out"
| "forEach_send h excludeSession messageStr (e # es) out =
     forEach_send h excludeSession messageStr es
       (if Some (fst e) \<noteq> excludeSession \<and> readyState (h (p_ws (snd e))) = OPEN
        then out @ [(p_ws (snd e), messageStr)] else out)"

definition broadcastToRoom :: "server \<Rightarrow> jsval \<Rightarrow> envelope \<Rightarrow> string option \<Rightarrow> server" where
  "broadcastToRoom s rid message excludeSession =
     (case map_of (rooms s) rid of
        None \<Rightarrow> s
      | Some room \<Rightarrow>
          s\<lparr>sent := forEach_send (sock s) excludeSession message (participants room) (sent s),
            serialized := serialized s + 1\<rparr>)"

text \<open>
  \<^verbatim>\<open>leaveRoom(ws)\<close>. local-server.js prints \<^verbatim>\<open>ws.roomId\<close> right after it has deleted the
  participant entry; both servers print it after they have deleted an emptied room and
  before they set \<^verbatim>\<open>ws.roomId\<close> to \<^verbatim>\<open>null\<close>.
\<close>

definition leaveRoom :: "flavor \<Rightarrow> server \<Rightarrow> conn \<Rightarrow> outcome" where
  "leaveRoom fl s w =
     (let x = sock s w in
      if \<not> truthy (roomId x) then Done s
      else case map_of (rooms s) (roomId x) of
        None \<Rightarrow> Done s
      | Some room \<Rightarrow>
          let room' = room\<lparr>participants := AList.delete (sessionId x) (participants room)\<rparr>;
              s1 = s\<lparr>rooms := AList.update (roomId x) room' (rooms s)\<rparr>
          in if fl = Local \<and> \<not> printable (roomId x) then Thrown s1
             else
               let s2 = broadcastToRoom s1 (roomId x)
                          (ParticipantLeft (sessionId x) (deviceType x)) None
               in if length (participants room') = 0
                  then (let s3 = s2\<lparr>rooms := AList.delete (roomId x) (rooms s2)\<rparr>
                        in if \<not> printable (roomId x) then Thrown s3
                           else Done (s3\<lparr>sock := (sock s3)(w := x\<lparr>roomId := JNull\<rparr>)\<rparr>))
                  else Done (s2\<lparr>sock := (sock s2)(w := x\<lparr>roomId := JNull\<rparr>)\<rparr>))"

text \<open>
  \<^verbatim>\<open>joinRoom(ws, roomId)\<close>. All \<^verbatim>\<open>Date.now()\<close> reads of one handler run are taken to return
  the same value \<open>now\<close>. local-server.js prints the room id once after it has created a
  room (before the participant entry is set) and once after it has set the entry and
  \<^verbatim>\<open>ws.roomId\<close> (before \<^verbatim>\<open>room_joined\<close> is sent); server.js prints it once, as its last
  statement. The pairing check exists in local-server.js only.
\<close>

definition joinRoom :: "flavor \<Rightarrow> server \<Rightarrow> conn \<Rightarrow> jsval \<Rightarrow> int \<Rightarrow> outcome" where
  "joinRoom fl s w rid now =
     (case (if truthy (roomId (sock s w)) then leaveRoom fl s w else Done s) of
        Thrown s0 \<Rightarrow> Thrown s0
      | Done s0 \<Rightarrow>
          let s1 = (if map_of (rooms s0) rid = None
                    then s0\<lparr>rooms := AList.update rid
                            \<lparr>room_id = rid, created = now, participants = []\<rparr> (rooms s0)\<rparr>
                    else s0);
              x = sock s1 w
          in if map_of (rooms s0) rid = None \<and> fl = Local \<and> \<not> printable rid then Thrown s1
             else case map_of (rooms s1) rid of
               None \<Rightarrow> Done s1
             | Some room \<Rightarrow>
                 let room' = room\<lparr>participants := AList.update (sessionId x)
                               \<lparr>p_ws = w, p_deviceType = deviceType x, joinedAt = now\<rparr>
                               (participants room)\<rparr>;
                     s2 = s1\<lparr>rooms := AList.update rid room' (rooms s1),
                             sock := (sock s1)(w := x\<lparr>roomId := rid\<rparr>)\<rparr>;
                     plist = map (\<lambda>e. (sessionId (sock s2 (p_ws (snd e))),
                                        deviceType (sock s2 (p_ws (snd e))),
                                        joinedAt (snd e))) (participants room')
                 in if fl = Local \<and> \<not> printable rid then Thrown s2
                    else
                      let s3 = send s2 w (RoomJoined rid
                                 (filter (\<lambda>p. fst p \<noteq> sessionId x) plist) (created room'));
                          s4 = broadcastToRoom s3 rid
                                 (ParticipantJoined (sessionId x) (deviceType x) now)
                                 (Some (sessionId x));
                          hasPhone = list_ex (\<lambda>p. fst (snd p) = ''mobile'') plist;
                          hasVR = list_ex (\<lambda>p. fst (snd p) = ''vr'') plist
                      in if fl = Local
                         then (if hasPhone \<and> hasVR
                               then Done (broadcastToRoom s4 rid
                                            (PairingSuccess (map (\<lambda>p. fst (snd p)) plist)) None)
                               else Done s4)
                         else (if \<not> printable rid then Thrown s4 else Done s4))"

text \<open>
  \<^verbatim>\<open>handlePoseData\<close>. server.js counts the message against the sender's window first and
  returns without a word once the count passes 30; it computes
  \<^verbatim>\<open>now - message.timestamp\<close> only when it builds the broadcast for a sender with a room.
  local-server.js has no limiter; it computes \<^verbatim>\<open>now - (message.timestamp || now)\<close> as its
  first step and then counts the message in \<^verbatim>\<open>deviceMetrics.messagesSent\<close>.
\<close>

definition handlePoseData :: "flavor \<Rightarrow> server \<Rightarrow> conn \<Rightarrow> pose_msg \<Rightarrow> int \<Rightarrow> outcome" where
  "handlePoseData fl s w m now =
     (let x = sock s w in
      case fl of
        Cloud \<Rightarrow>
          let l0 = (case map_of (poseDataLimits s) (sessionId x) of
                      None \<Rightarrow> \<lparr>count = 0, resetTime = now + 1000\<rparr>
                    | Some l \<Rightarrow> l);
              l1 = (if now > resetTime l0 then \<lparr>count = 0, resetTime = now + 1000\<rparr> else l0);
              l2 = l1\<lparr>count := count l1 + 1\<rparr>;
              s1 = s\<lparr>poseDataLimits := AList.update (sessionId x) l2 (poseDataLimits s)\<rparr>
          in if count l2 > 30 then Done s1
             else if truthy (roomId x)
               then (case timestamp m of
                       TsThrows \<Rightarrow> Thrown s1
                     | TsValue t n \<Rightarrow>
                         Done (broadcastToRoom s1 (roomId x)
                                 (PoseCloud (sessionId x) (deviceType x) now (landmarks m)
                                    (metadata m) (map_option (\<lambda>k. now - k) n))
                                 (Some (sessionId x))))
               else Done s1
      | Local \<Rightarrow>
          (case timestamp m of
             TsThrows \<Rightarrow> Thrown s
           | TsValue t n \<Rightarrow>
               let latency = (if t then map_option (\<lambda>k. now - k) n else Some 0);
                   s1 = s\<lparr>messagesSent := messagesSent s + 1\<rparr>
               in if truthy (roomId x)
                  then Done (broadcastToRoom s1 (roomId x) (PoseLocal m now latency)
                               (Some (sessionId x)))
                  else Done s1))"

text \<open>\<^verbatim>\<open>registerDevice\<close>, which only server.js defines.\<close>

definition registerDevice :: "server \<Rightarrow> conn \<Rightarrow> json option \<Rightarrow> json option \<Rightarrow> server" where
  "registerDevice s w caps info =
     (let x = (sock s w)\<lparr>capabilities := caps, deviceInfo := info\<rparr>;
          s1 = s\<lparr>sock := (sock s)(w := x)\<rparr>
      in send s1 w (DeviceRegistered (sessionId x) (capabilities x)))"

text \<open>\<^verbatim>\<open>handleSyncRequest\<close> (server.js only). \<^verbatim>\<open>connections\<close> has string keys only.\<close>

definition handleSyncRequest :: "server \<Rightarrow> conn \<Rightarrow> jsval \<Rightarrow> json \<Rightarrow> int \<Rightarrow> server" where
  "handleSyncRequest s w targetSession body now =
     (if truthy targetSession
      then case (case targetSession of JStr t \<Rightarrow> map_of (connections s) t | _ \<Rightarrow> None) of
             Some target \<Rightarrow>
               if readyState (sock s target) = OPEN
               then send s target (SyncForward targetSession body (sessionId (sock s w)))
               else sendError s w ''Target session not found'' now
           | None \<Rightarrow> sendError s w ''Target session not found'' now
      else s)"

definition sendRoomList :: "server \<Rightarrow> conn \<Rightarrow> server" where
  "sendRoomList s w =
     send s w (RoomListEnv (map (\<lambda>(i, r). (i, created r, length (participants r),
                                   map (\<lambda>e. p_deviceType (snd e)) (participants r))) (rooms s)))"

definition sendStats :: "server \<Rightarrow> conn \<Rightarrow> server" where
  "sendStats s w =
     send s w (StatsEnv (currentConnections s) (totalConnections s) (length (rooms s))
                 (messagesSent s) (messageCount s)
                 (map (\<lambda>(i, r). (i, length (participants r), created r)) (rooms s)))"

text \<open>
  The \<^verbatim>\<open>default\<close> arm of both routers: the reply names the type, so a type with no
  conversion to a string throws instead.
\<close>

definition unknownType :: "server \<Rightarrow> conn \<Rightarrow> message \<Rightarrow> int \<Rightarrow> outcome" where
  "unknownType s w m now =
     (case typeName m of
        None \<Rightarrow> Thrown s
      | Some t \<Rightarrow> Done (sendError s w (''Unknown message type: '' @ t) now))"

text \<open>
  The message router. \<open>rnd\<close> is the value of the one random draw the handler may make
  (\<^verbatim>\<open>generateRoomId()\<close> for \<^verbatim>\<open>create_room\<close>). local-server.js prints \<^verbatim>\<open>message.type\<close> before
  the \<^verbatim>\<open>switch\<close>, and its \<^verbatim>\<open>device_register\<close> arm calls \<^verbatim>\<open>registerDevice\<close>, which that file
  does not define: a ReferenceError.
\<close>

definition handleMessage :: "flavor \<Rightarrow> server \<Rightarrow> conn \<Rightarrow> message \<Rightarrow> string \<Rightarrow> int \<Rightarrow> outcome" where
  "handleMessage fl s w m rnd now =
     (if fl = Local \<and> typeName m = None then Thrown s
      else case m of
        JoinRoomMsg r \<Rightarrow> joinRoom fl s w r now
      | CreateRoomMsg \<Rightarrow>
          (if fl = Local
           then (case joinRoom fl s w (JStr rnd) now of
                   Thrown s' \<Rightarrow> Thrown s'
                 | Done s' \<Rightarrow> Done (send s' w (RoomCreated (JStr rnd))))
           else unknownType s w m now)
      | LeaveRoomMsg \<Rightarrow> leaveRoom fl s w
      | PoseDataMsg p \<Rightarrow> handlePoseData fl s w p now
      | DeviceRegisterMsg c d \<Rightarrow>
          (if fl = Cloud then Done (registerDevice s w c d) else Thrown s)
      | PingMsg \<Rightarrow> Done (send s w (Pong now))
      | GetStatsMsg \<Rightarrow>
          (if fl = Local then Done (sendStats s w) else unknownType s w m now)
      | SyncRequestMsg t b \<Rightarrow>
          (if fl = Cloud then Done (handleSyncRequest s w t b now) else unknownType s w m now)
      | RoomListMsg \<Rightarrow>
          (if fl = Cloud then Done (sendRoomList s w) else unknownType s w m now)
      | OtherMsg t \<Rightarrow> unknownType s w m now)"

text \<open>
  The \<^verbatim>\<open>'message'\<close> listener: count the frame, parse, route, and answer whatever is thrown
  with "Invalid message format".
\<close>

definition onMessage :: "flavor \<Rightarrow> server \<Rightarrow> conn \<Rightarrow> frame \<Rightarrow> string \<Rightarrow> int \<Rightarrow> server" where
  "onMessage fl s w data rnd now =
     (let s1 = s\<lparr>messageCount := messageCount s + 1\<rparr>
      in case data of
           NotJSON \<Rightarrow> sendError s1 w ''Invalid message format'' now
         | JsonNull \<Rightarrow> sendError s1 w ''Invalid message format'' now
         | Json m \<Rightarrow>
             (case handleMessage fl s1 w m rnd now of
                Done s' \<Rightarrow> s'
              | Thrown s' \<Rightarrow> sendError s' w ''Invalid message format'' now))"

definition cleanup :: "flavor \<Rightarrow> server \<Rightarrow> conn \<Rightarrow> outcome" where
  "cleanup fl s w =
     (let s1 = s\<lparr>connections := AList.delete (sessionId (sock s w)) (connections s)\<rparr>
      in case leaveRoom fl s1 w of
           Thrown s2 \<Rightarrow> Thrown s2
         | Done s2 \<Rightarrow>
             if fl = Cloud
             then Done (s2\<lparr>poseDataLimits :=
                             AList.delete (sessionId (sock s2 w)) (poseDataLimits s2)\<rparr>)
             else Done s2)"

text \<open>An exception that no listener catches ends the process.\<close>

definition uncaught :: "outcome \<Rightarrow> server" where
  "uncaught r = (case r of Done s \<Rightarrow> s | Thrown s \<Rightarrow> s\<lparr>crashed := True\<rparr>)"

text \<open>
  The \<^verbatim>\<open>'connection'\<close> listener. \<open>qSession\<close>, \<open>qDevice\<close>, \<open>qRoom\<close> are the three URL
  parameters (\<open>None\<close> when \<^verbatim>\<open>searchParams.get\<close> returns \<^verbatim>\<open>null\<close>); \<open>gen\<close> and \<open>gen'\<close> are the
  values the two \<^verbatim>\<open>generateId()\<close> calls return, the first of which is made only when the
  URL gives no non-empty session id. The new socket gets the next free handle.
\<close>

definition onConnection ::
  "flavor \<Rightarrow> server \<Rightarrow> string option \<Rightarrow> string option \<Rightarrow> string option \<Rightarrow>
   string \<Rightarrow> string \<Rightarrow> int \<Rightarrow> server" where
  "onConnection fl s qSession qDevice qRoom gen gen' now =
     (let sid = (case qSession of None \<Rightarrow> gen | Some q \<Rightarrow> if q = [] then gen else q);
          dev = (case qDevice of None \<Rightarrow> ''unknown'' | Some d \<Rightarrow> if d = [] then ''unknown'' else d);
          rid = (case qRoom of None \<Rightarrow> JNull | Some r \<Rightarrow> JStr r);
          w = nextConn s;
          x = \<lparr>sessionId = sid, deviceType = dev, roomId = rid, isAlive = True,
               connectedAt = now, readyState = OPEN, capabilities = None, deviceInfo = None\<rparr>;
          s1 = s\<lparr>sock := (sock s)(w := x), nextConn := w + 1,
                  connections := AList.update sid w (connections s)\<rparr>;
          s2 = (if fl = Local
                then s1\<lparr>totalConnections := totalConnections s1 + 1,
                        currentConnections := currentConnections s1 + 1\<rparr>
                else s1)
      in case (if truthy rid then joinRoom fl s2 w rid now else Done s2) of
           Thrown s3 \<Rightarrow> uncaught (Thrown s3)
         | Done s3 \<Rightarrow>
             send s3 w (Connected sid dev now (if fl = Cloud then gen' else ''1.0.0-dev'')))"

text \<open>The \<^verbatim>\<open>'close'\<close> and \<^verbatim>\<open>'error'\<close> listeners; at \<^verbatim>\<open>'close'\<close> the socket is already CLOSED.\<close>

definition onClose :: "flavor \<Rightarrow> server \<Rightarrow> conn \<Rightarrow> server" where
  "onClose fl s w =
     (let s1 = s\<lparr>sock := (sock s)(w := (sock s w)\<lparr>readyState := CLOSED\<rparr>)\<rparr>;
          s2 = (if fl = Local then s1\<lparr>currentConnections := currentConnections s1 - 1\<rparr> else s1)
      in uncaught (cleanup fl s2 w))"

definition onError :: "flavor \<Rightarrow> server \<Rightarrow> conn \<Rightarrow> server" where
  "onError fl s w = uncaught (cleanup fl s w)"

text \<open>
  What can happen to a server, and a run from the state at start-up. After the process
  has ended nothing happens any more.
\<close>

datatype event =
    Connect "string option" "string option" "string option" string string int
  | Message conn frame string int
  | Close conn
  | Error conn

definition step :: "flavor \<Rightarrow> server \<Rightarrow> event \<Rightarrow> server" where
  "step fl s ev =
     (if crashed s then s
      else case ev of
        Connect qs qd qr g g' now \<Rightarrow> onConnection fl s qs qd qr g g' now
      | Message w d rnd now \<Rightarrow>
          if w < nextConn s \<and> readyState (sock s w) \<noteq> CLOSED
          then onMessage fl s w d rnd now else s
      | Close w \<Rightarrow>
          if w < nextConn s \<and> readyState (sock s w) \<noteq> CLOSED then onClose fl s w else s
      | Error w \<Rightarrow>
          if w < nextConn s \<and> readyState (sock s w) \<noteq> CLOSED then onError fl s w else s)"

primrec run :: "flavor \<Rightarrow> server \<Rightarrow> event list \<Rightarrow> server" where
  "run fl s [] = s"
| "run fl s (ev # evs) = run fl (step fl s ev) evs"

definition init :: server where
  "init = \<lparr>rooms = [], connections = [], poseDataLimits = [],
           sock = (\<lambda>w. \<lparr>sessionId = [], deviceType = [], roomId = JNull, isAlive = False,
                        connectedAt = 0, readyState = CLOSED, capabilities = None,
                        deviceInfo = None\<rparr>),
           nextConn = 0, messageCount = 0, messagesSent = 0, totalConnections = 0,
           currentConnections = 0, sent = [], serialized = 0, crashed = False\<rparr>"

section \<open>The client's connection manager\<close>

text \<open>
  \<^verbatim>\<open>WebSocketManager\<close> of \<^verbatim>\<open>src/utils/WebSocketManager.js\<close>, as far as connecting and
  reconnecting go. \<open>socket\<close> is \<^verbatim>\<open>this.ws\<close> (the base URL and the room parameter of the
  \<^verbatim>\<open>WebSocket\<close> created last, \<open>None\<close> for \<^verbatim>\<open>null\<close>); \<open>socketLive\<close> says that this socket has
  not closed yet and can still raise events; \<open>socketsOpened\<close> counts the calls of
  \<^verbatim>\<open>new WebSocket\<close>; \<open>timers\<close> holds the delays of the pending \<^verbatim>\<open>setTimeout\<close> callbacks;
  \<open>registrations\<close> counts the \<^verbatim>\<open>device_register\<close> frames sent; \<open>connectionStatus\<close> is the text
  last passed to \<^verbatim>\<open>updateConnectionStatus\<close>.
\<close>

datatype conn_status =
    NoStatus
  | StatusConnected
  | StatusDisconnected
  | StatusReconnecting nat nat
  | StatusConnectionFailed

record manager =
  isConnected :: bool
  reconnectAttempts :: nat
  maxReconnectAttempts :: nat
  reconnectDelay :: nat
  connectionStatus :: conn_status
  socket :: "(string \<times> string option) option"
  socketLive :: bool
  socketsOpened :: nat
  timers :: "nat list"
  registrations :: nat

text \<open>The constructor.\<close>

definition new_manager :: manager where
  "new_manager = \<lparr>isConnected = False, reconnectAttempts = 0, maxReconnectAttempts = 5,
                   reconnectDelay = 1000, connectionStatus = NoStatus, socket = None,
                   socketLive = False, socketsOpened = 0, timers = [], registrations = 0\<rparr>"

text \<open>
  The table \<^verbatim>\<open>this.cloudServices\<close>. Its \<^verbatim>\<open>ngrok\<close> line is commented out in the source, so
  that name has no entry.
\<close>

definition cloudServices :: "string \<Rightarrow> string option" where
  "cloudServices service =
     (if service = ''cloudflare'' then Some ''wss://pose-tracker.your-domain.workers.dev''
      else if service = ''railway'' then Some ''wss://your-app.railway.app''
      else if service = ''custom'' then Some ''wss://your-custom-server.com''
      else if service = ''local'' then Some ''ws://192.168.86.208:8080/ws''
      else None)"

text \<open>
  Looking a name up in the table also finds what every object inherits; the source takes
  such a value for a URL.
\<close>

definition inheritedName :: "string \<Rightarrow> bool" where
  "inheritedName service =
     (service \<in> set [''constructor'', ''toString'', ''valueOf'', ''toLocaleString'',
                      ''hasOwnProperty'', ''isPrototypeOf'', ''propertyIsEnumerable'',
                      ''__proto__'', ''__defineGetter__'', ''__defineSetter__'',
                      ''__lookupGetter__'', ''__lookupSetter__''])"

text \<open>\<^verbatim>\<open>handleDisconnection()\<close>, called by \<^verbatim>\<open>onclose\<close>, \<^verbatim>\<open>onerror\<close> and the \<^verbatim>\<open>catch\<close> of \<^verbatim>\<open>connect\<close>.\<close>

definition handleDisconnection :: "manager \<Rightarrow> manager" where
  "handleDisconnection m =
     (let m1 = m\<lparr>isConnected := False, connectionStatus := StatusDisconnected\<rparr>
      in if reconnectAttempts m1 < maxReconnectAttempts m1
         then m1\<lparr>timers := timers m1 @ [reconnectDelay m1 * 2 ^ reconnectAttempts m1]\<rparr>
         else m1\<lparr>connectionStatus := StatusConnectionFailed\<rparr>)"

text \<open>
  \<^verbatim>\<open>connect(service = 'ngrok', roomId = null)\<close>: a service without an entry is reported on
  the console and the method returns; for an inherited name \<^verbatim>\<open>new URL\<close> throws and the
  \<^verbatim>\<open>catch\<close> calls \<^verbatim>\<open>handleDisconnection\<close>; otherwise a new socket replaces \<^verbatim>\<open>this.ws\<close>, with
  the room in its URL when one is given and not empty. The URLs of the table are taken to
  be ones the page may open.
\<close>

definition connect :: "manager \<Rightarrow> string \<Rightarrow> string option \<Rightarrow> manager" where
  "connect m service roomId' =
     (case cloudServices service of
        None \<Rightarrow> if inheritedName service then handleDisconnection m else m
      | Some wsUrl \<Rightarrow>
          m\<lparr>socket := Some (wsUrl, case roomId' of None \<Rightarrow> None
                                  | Some r \<Rightarrow> if r = [] then None else Some r),
            socketLive := True, socketsOpened := socketsOpened m + 1\<rparr>)"

text \<open>The \<^verbatim>\<open>onopen\<close> handler.\<close>

definition onopen :: "manager \<Rightarrow> manager" where
  "onopen m = m\<lparr>isConnected := True, reconnectAttempts := 0,
                connectionStatus := StatusConnected, registrations := registrations m + 1\<rparr>"

text \<open>
  The callback given to \<^verbatim>\<open>setTimeout\<close>: it counts the attempt, shows it and calls
  \<^verbatim>\<open>this.connect()\<close> without arguments, that is with the defaults \<^verbatim>\<open>'ngrok'\<close> and \<^verbatim>\<open>null\<close>.
\<close>

definition reconnectCallback :: "manager \<Rightarrow> manager" where
  "reconnectCallback m =
     (let m1 = m\<lparr>reconnectAttempts := reconnectAttempts m + 1\<rparr>;
          m2 = m1\<lparr>connectionStatus :=
                    StatusReconnecting (reconnectAttempts m1) (maxReconnectAttempts m1)\<rparr>
      in connect m2 ''ngrok'' None)"

text \<open>
  What can happen to a manager: its socket opens, closes or reports an error (as long as
  it has not closed), or the oldest pending timer fires.
\<close>

datatype client_event = SocketOpen | SocketClose | SocketError | TimerFires

definition client_step :: "manager \<Rightarrow> client_event \<Rightarrow> manager" where
  "client_step m ev =
     (case ev of
        SocketOpen \<Rightarrow> if socketLive m then onopen m else m
      | SocketClose \<Rightarrow> if socketLive m then handleDisconnection (m\<lparr>socketLive := False\<rparr>) else m
      | SocketError \<Rightarrow> if socketLive m then handleDisconnection m else m
      | TimerFires \<Rightarrow>
          (case timers m of [] \<Rightarrow> m | d # ds \<Rightarrow> reconnectCallback (m\<lparr>timers := ds\<rparr>)))"

primrec client_run :: "manager \<Rightarrow> client_event list \<Rightarrow> manager" where
  "client_run m [] = m"
| "client_run m (ev # evs) = client_run (client_step m ev) evs"

section \<open>Observations on a server state\<close>

text \<open>The participant entries of a room code; none when the code is not in the directory.\<close>

definition participantsOf :: "server \<Rightarrow> jsval \<Rightarrow> (string \<times> participant) list" where
  "participantsOf s rid = (case map_of (rooms s) rid of None \<Rightarrow> [] | Some r \<Rightarrow> participants r)"

text \<open>
  The phases of \<^verbatim>\<open>joinRoom\<close> after the leave: \<open>joinRoom_enter\<close> creates the room when the
  code is new, sets the participant entry and \<^verbatim>\<open>ws.roomId\<close>; \<open>joinRoom_notify\<close> sends
  \<^verbatim>\<open>room_joined\<close>, broadcasts \<^verbatim>\<open>participant_joined\<close> (\<open>joinRoom_told\<close>) and then, in
  local-server.js, checks for a pairing, in server.js prints the room id. \<open>plistOf\<close> is the
  \<^verbatim>\<open>participants\<close> array \<^verbatim>\<open>joinRoom\<close> builds from the room.
\<close>

definition joinRoom_enter :: "server \<Rightarrow> conn \<Rightarrow> jsval \<Rightarrow> int \<Rightarrow> server" where
  "joinRoom_enter s w rid now =
     (let room = (case map_of (rooms s) rid of
                    None \<Rightarrow> \<lparr>room_id = rid, created = now, participants = []\<rparr>
                  | Some r \<Rightarrow> r);
          x = sock s w
      in s\<lparr>rooms := AList.update rid
                 (room\<lparr>participants := AList.update (sessionId x)
                          \<lparr>p_ws = w, p_deviceType = deviceType x, joinedAt = now\<rparr>
                          (participants room)\<rparr>) (rooms s),
           sock := (sock s)(w := x\<lparr>roomId := rid\<rparr>)\<rparr>)"

definition plistOf :: "server \<Rightarrow> jsval \<Rightarrow> (string \<times> string \<times> int) list" where
  "plistOf s rid =
     map (\<lambda>e. (sessionId (sock s (p_ws (snd e))), deviceType (sock s (p_ws (snd e))),
                joinedAt (snd e))) (participantsOf s rid)"

definition createdOf :: "server \<Rightarrow> jsval \<Rightarrow> int" where
  "createdOf s rid = (case map_of (rooms s) rid of None \<Rightarrow> 0 | Some r \<Rightarrow> created r)"

definition joinRoom_told :: "server \<Rightarrow> conn \<Rightarrow> jsval \<Rightarrow> int \<Rightarrow> server" where
  "joinRoom_told s w rid now =
     (let x = sock s w;
          s3 = send s w (RoomJoined rid
                     (filter (\<lambda>p. fst p \<noteq> sessionId x) (plistOf s rid)) (createdOf s rid))
      in broadcastToRoom s3 rid
           (ParticipantJoined (sessionId x) (deviceType x) now) (Some (sessionId x)))"

definition joinRoom_notify :: "flavor \<Rightarrow> server \<Rightarrow> conn \<Rightarrow> jsval \<Rightarrow> int \<Rightarrow> outcome" where
  "joinRoom_notify fl s w rid now =
     (if fl = Local
      then (if list_ex (\<lambda>p. fst (snd p) = ''mobile'') (plistOf s rid)
               \<and> list_ex (\<lambda>p. fst (snd p) = ''vr'') (plistOf s rid)
            then Done (broadcastToRoom (joinRoom_told s w rid now) rid
                         (PairingSuccess (map (\<lambda>p. fst (snd p)) (plistOf s rid))) None)
            else Done (joinRoom_told s w rid now))
      else (if \<not> printable rid then Thrown (joinRoom_told s w rid now)
            else Done (joinRoom_told s w rid now)))"

text \<open>The state in which \<^verbatim>\<open>joinRoom\<close> of local-server.js throws for a room id it cannot print.\<close>

definition joinRoom_stuck :: "server \<Rightarrow> conn \<Rightarrow> jsval \<Rightarrow> int \<Rightarrow> server" where
  "joinRoom_stuck s w rid now =
     (if map_of (rooms s) rid = None
      then s\<lparr>rooms := AList.update rid
               \<lparr>room_id = rid, created = now, participants = []\<rparr> (rooms s)\<rparr>
      else joinRoom_enter s w rid now)"

text \<open>What \<^verbatim>\<open>joinRoom\<close> does once the leave has returned.\<close>

definition joinRoom_after :: "flavor \<Rightarrow> server \<Rightarrow> conn \<Rightarrow> jsval \<Rightarrow> int \<Rightarrow> outcome" where
  "joinRoom_after fl s w rid now =
     (if fl = Local \<and> \<not> printable rid then Thrown (joinRoom_stuck s w rid now)
      else joinRoom_notify fl (joinRoom_enter s w rid now) w rid now)"

text \<open>Every room of the directory has at least one participant entry.\<close>

definition rooms_ok :: "server \<Rightarrow> bool" where
  "rooms_ok s = (\<forall>rid r. map_of (rooms s) rid = Some r \<longrightarrow> participants r \<noteq> [])"

text \<open>One client connects as session \<open>a\<close> and joins room \<open>R\<close>.\<close>

definition scenario_join :: "event list" where
  "scenario_join =
     [Connect (Some ''a'') (Some ''mobile'') None ''g1'' ''g2'' 5,
      Message 0 (Json (JoinRoomMsg (JStr ''R''))) ''r'' 6]"

text \<open>
  The message types each router has a \<^verbatim>\<open>case\<close> label for; every other frame falls into
  \<^verbatim>\<open>default\<close>.
\<close>

fun recognized :: "flavor \<Rightarrow> message \<Rightarrow> bool" where
  "recognized fl (OtherMsg t) = False"
| "recognized fl CreateRoomMsg = (fl = Local)"
| "recognized fl GetStatsMsg = (fl = Local)"
| "recognized fl (SyncRequestMsg t b) = (fl = Cloud)"
| "recognized fl RoomListMsg = (fl = Cloud)"
| "recognized fl m = True"

text \<open>Two clients \<open>a\<close> and \<open>b\<close> connect; then \<open>a\<close> sends a \<^verbatim>\<open>sync_request\<close> that names \<open>b\<close>.\<close>

definition scenario_pair :: "event list" where
  "scenario_pair =
     [Connect (Some ''a'') (Some ''mobile'') None ''g1'' ''g2'' 5,
      Connect (Some ''b'') (Some ''vr'') None ''g3'' ''g4'' 6]"

definition scenario_sync :: "event list" where
  "scenario_sync =
     scenario_pair @ [Message 0 (Json (SyncRequestMsg (JStr ''b'') ''{}'')) ''r'' 7]"

text \<open>Two clients connect one after the other, both asking for session id \<open>a\<close>.\<close>

definition scenario_collision :: "event list" where
  "scenario_collision =
     [Connect (Some ''a'') (Some ''mobile'') None ''g1'' ''g2'' 5,
      Connect (Some ''a'') (Some ''vr'') None ''g3'' ''g4'' 6]"

text \<open>
  Clients connect with \<^verbatim>\<open>roomId=R\<close> in the URL: a mobile and a vr, then a second mobile.
\<close>

definition scenario_paired :: "event list" where
  "scenario_paired =
     [Connect (Some ''a'') (Some ''mobile'') (Some ''R'') ''g1'' ''g2'' 5,
      Connect (Some ''b'') (Some ''vr'') (Some ''R'') ''g3'' ''g4'' 6]"

definition scenario_three :: "event list" where
  "scenario_three =
     scenario_paired @ [Connect (Some ''c'') (Some ''mobile'') (Some ''R'') ''g5'' ''g6'' 7]"

text \<open>
  The server has called \<^verbatim>\<open>close()\<close> on a socket (as the shutdown handler does) and the
  \<^verbatim>\<open>'close'\<close> event has not arrived yet.
\<close>

definition closing :: "server \<Rightarrow> conn \<Rightarrow> server" where
  "closing s w = s\<lparr>sock := (sock s)(w := (sock s w)\<lparr>readyState := CLOSING\<rparr>)\<rparr>"

text \<open>
  Socket \<open>w\<close> is a member of room \<open>rid\<close>: some participant entry of that room refers to it.
\<close>

definition member :: "server \<Rightarrow> conn \<Rightarrow> jsval \<Rightarrow> bool" where
  "member s w rid = list_ex (\<lambda>e. p_ws (snd e) = w) (participantsOf s rid)"

text \<open>
  A client connects, sends a \<^verbatim>\<open>join_room\<close> whose room code is the empty string (in the
  second scenario: one that has no \<^verbatim>\<open>roomId\<close> field at all), then joins room \<open>B\<close>.
\<close>

definition scenario_empty_code :: "event list" where
  "scenario_empty_code =
     [Connect (Some ''a'') (Some ''mobile'') None ''g1'' ''g2'' 5,
      Message 0 (Json (JoinRoomMsg (JStr []))) ''r'' 6,
      Message 0 (Json (JoinRoomMsg (JStr ''B''))) ''r'' 7]"

definition scenario_missing_code :: "event list" where
  "scenario_missing_code =
     [Connect (Some ''a'') (Some ''mobile'') None ''g1'' ''g2'' 5,
      Message 0 (Json (JoinRoomMsg JUndefined)) ''r'' 6,
      Message 0 (Json (JoinRoomMsg (JStr ''B''))) ''r'' 7]"

text \<open>
  The \<^verbatim>\<open>pairing_success\<close> deliveries in the log, and the test \<^verbatim>\<open>hasPhone && hasVR\<close> on the
  participants of a room.
\<close>

fun isPairing :: "envelope \<Rightarrow> bool" where
  "isPairing (PairingSuccess d) = True"
| "isPairing e = False"

definition pairingSent :: "server \<Rightarrow> (conn \<times> envelope) list" where
  "pairingSent s = filter (\<lambda>x. isPairing (snd x)) (sent s)"

definition paired :: "server \<Rightarrow> jsval \<Rightarrow> bool" where
  "paired s rid = (list_ex (\<lambda>p. fst (snd p) = ''mobile'') (plistOf s rid)
                   \<and> list_ex (\<lambda>p. fst (snd p) = ''vr'') (plistOf s rid))"

text \<open>
  A burst of \<^verbatim>\<open>pose_data\<close> frames from one socket, each with its arrival time, handed to
  the \<^verbatim>\<open>'message'\<close> listener one after the other. \<open>poseEnvelope\<close> is the envelope the
  server broadcasts for a frame whose time stamp has truth value \<open>t\<close> and numeric value
  \<open>n\<close>. \<open>poseDeliveries\<close> is what a frame that is not dropped makes the server send: the
  broadcast to every open participant of the sender's room under another session id; or,
  when the subtraction on the time stamp is reached and throws, nothing but the \<^verbatim>\<open>error\<close>
  envelope to the sender. \<open>nextLimit\<close> is the limiter entry \<^verbatim>\<open>handlePoseData\<close> of server.js
  stores for the sender when a frame arrives at \<open>now\<close>.
\<close>

primrec poseBurst :: "flavor \<Rightarrow> server \<Rightarrow> conn \<Rightarrow> (pose_msg \<times> int) list \<Rightarrow> server" where
  "poseBurst fl s w [] = s"
| "poseBurst fl s w (f # fs) =
     poseBurst fl (onMessage fl s w (Json (PoseDataMsg (fst f))) [] (snd f)) w fs"

definition poseEnvelope :: "flavor \<Rightarrow> ws \<Rightarrow> pose_msg \<Rightarrow> int \<Rightarrow> bool \<Rightarrow> int option \<Rightarrow> envelope" where
  "poseEnvelope fl x m now t n =
     (case fl of
        Cloud \<Rightarrow> PoseCloud (sessionId x) (deviceType x) now (landmarks m) (metadata m)
                   (map_option (\<lambda>k. now - k) n)
      | Local \<Rightarrow> PoseLocal m now (if t then map_option (\<lambda>k. now - k) n else Some 0))"

definition poseDeliveries :: "flavor \<Rightarrow> server \<Rightarrow> conn \<Rightarrow> pose_msg \<times> int \<Rightarrow> (conn \<times> envelope) list" where
  "poseDeliveries fl s w f =
     (case timestamp (fst f) of
        TsThrows \<Rightarrow>
          if (fl = Local \<or> truthy (roomId (sock s w))) \<and> readyState (sock s w) = OPEN
          then [(w, ErrorEnv ''Invalid message format'' (snd f))] else []
      | TsValue t n \<Rightarrow>
          if truthy (roomId (sock s w))
          then map (\<lambda>e. (p_ws (snd e), poseEnvelope fl (sock s w) (fst f) (snd f) t n))
                 (filter (\<lambda>e. fst e \<noteq> sessionId (sock s w)
                             \<and> readyState (sock s (p_ws (snd e))) = OPEN)
                    (participantsOf s (roomId (sock s w))))
          else [])"

definition nextLimit :: "server \<Rightarrow> conn \<Rightarrow> int \<Rightarrow> limit" where
  "nextLimit s w now =
     (let l0 = (case map_of (poseDataLimits s) (sessionId (sock s w)) of
                      None \<Rightarrow> \<lparr>count = 0, resetTime = now + 1000\<rparr>
                    | Some l \<Rightarrow> l);
          l1 = (if now > resetTime l0 then \<lparr>count = 0, resetTime = now + 1000\<rparr> else l0)
      in l1\<lparr>count := count l1 + 1\<rparr>)"

definition frame0 :: pose_msg where
  "frame0 = \<lparr>landmarks = ''[]'', metadata = ''{}'', timestamp = TsValue True (Some 9)\<rparr>"

text \<open>A frame whose time stamp is \<^verbatim>\<open>{"valueOf":1,"toString":1}\<close>.\<close>

definition frame1 :: pose_msg where
  "frame1 = \<lparr>landmarks = ''[]'', metadata = ''{}'', timestamp = TsThrows\<rparr>"

text \<open>
  Every participant entry sits in the room its socket names in \<^verbatim>\<open>ws.roomId\<close>, under the
  socket's own session id, in a room whose code counts as true, and refers to a socket that
  has been accepted. \<open>truthy_codes\<close> says of an event that the room code it asks to join,
  if any, counts as true.
\<close>

definition entries_ok :: "server \<Rightarrow> bool" where
  "entries_ok s =
     (\<forall>rid r e. map_of (rooms s) rid = Some r \<and> e \<in> set (participants r) \<longrightarrow>
        truthy rid \<and> roomId (sock s (p_ws (snd e))) = rid
        \<and> fst e = sessionId (sock s (p_ws (snd e))) \<and> p_ws (snd e) < nextConn s)"

fun truthy_codes :: "event \<Rightarrow> bool" where
  "truthy_codes (Message w (Json (JoinRoomMsg r)) rnd now) = truthy r"
| "truthy_codes (Message w (Json CreateRoomMsg) rnd now) = (rnd \<noteq> [])"
| "truthy_codes ev = True"

text \<open>No participant entry refers to the socket.\<close>

definition absent :: "server \<Rightarrow> conn \<Rightarrow> bool" where
  "absent s w = (\<forall>rid r e. map_of (rooms s) rid = Some r \<and> e \<in> set (participants r) \<longrightarrow>
                   p_ws (snd e) \<noteq> w)"


text \<open>
  A client connects and sends \<^verbatim>\<open>{"type":"join_room","roomId":{"toString":1}}\<close>: the room id
  is an object that cannot be printed.
\<close>

definition scenario_unprintable :: "event list" where
  "scenario_unprintable =
     [Connect (Some ''a'') (Some ''mobile'') None ''g1'' ''g2'' 5,
      Message 0 (Json (JoinRoomMsg (JObj 0 False))) ''r'' 6]"

text \<open>The same client then asks to join room \<open>B\<close>.\<close>

definition scenario_unprintable_next :: "event list" where
  "scenario_unprintable_next =
     scenario_unprintable @ [Message 0 (Json (JoinRoomMsg (JStr ''B''))) ''r'' 7]"

text \<open>A client connects and joins the room whose code is the empty string.\<close>

definition scenario_join_empty :: "event list" where
  "scenario_join_empty =
     [Connect (Some ''a'') (Some ''mobile'') None ''g1'' ''g2'' 5,
      Message 0 (Json (JoinRoomMsg (JStr []))) ''r'' 6]"

text \<open>
  All room ids that an event asks to join can be printed; every socket's \<^verbatim>\<open>ws.roomId\<close> can
  be printed.
\<close>

fun printable_codes :: "event \<Rightarrow> bool" where
  "printable_codes (Message w (Json (JoinRoomMsg r)) rnd now) = printable r"
| "printable_codes ev = True"

definition ids_printable :: "server \<Rightarrow> bool" where
  "ids_printable s = (\<forall>w. printable (roomId (sock s w)))"

text \<open>
  The state invariant behind the room directory: no room is empty, and, for
  local-server.js, every \<^verbatim>\<open>ws.roomId\<close> can be printed. \<open>fine\<close> is what it asks of an event.
\<close>

definition steady :: "flavor \<Rightarrow> server \<Rightarrow> bool" where
  "steady fl s = (rooms_ok s \<and> (fl = Cloud \<or> ids_printable s))"

definition fine :: "flavor \<Rightarrow> event \<Rightarrow> bool" where
  "fine fl ev = (fl = Cloud \<or> printable_codes ev)"

section \<open>Frame lemmas: what each operation leaves alone\<close>

lemma send_proj [simp]:
  "rooms (send s w m) = rooms s" "sock (send s w m) = sock s"
  "connections (send s w m) = connections s" "poseDataLimits (send s w m) = poseDataLimits s"
  "nextConn (send s w m) = nextConn s" "messageCount (send s w m) = messageCount s"
  "crashed (send s w m) = crashed s"
  by (simp_all add: send_def)

lemma broadcast_proj [simp]:
  "rooms (broadcastToRoom s r m e) = rooms s" "sock (broadcastToRoom s r m e) = sock s"
  "connections (broadcastToRoom s r m e) = connections s"
  "poseDataLimits (broadcastToRoom s r m e) = poseDataLimits s"
  "nextConn (broadcastToRoom s r m e) = nextConn s"
  "messageCount (broadcastToRoom s r m e) = messageCount s"
  "crashed (broadcastToRoom s r m e) = crashed s"
  by (simp_all add: broadcastToRoom_def split: option.splits)

lemma sendError_proj [simp]:
  "rooms (sendError s w m now) = rooms s" "sock (sendError s w m now) = sock s"
  "connections (sendError s w m now) = connections s"
  "poseDataLimits (sendError s w m now) = poseDataLimits s"
  "nextConn (sendError s w m now) = nextConn s"
  "crashed (sendError s w m now) = crashed s"
  by (simp_all add: sendError_def)

lemma forEach_send_eq:
  "forEach_send h ex m es out =
     out @ map (\<lambda>e. (p_ws (snd e), m))
             (filter (\<lambda>e. Some (fst e) \<noteq> ex \<and> readyState (h (p_ws (snd e))) = OPEN) es)"
  by (induction es arbitrary: out) simp_all

lemma broadcast_absent: "map_of (rooms s) rid = None \<Longrightarrow> broadcastToRoom s rid m ex = s"
  by (simp add: broadcastToRoom_def)

lemma broadcast_present:
  "map_of (rooms s) rid = Some room \<Longrightarrow>
   broadcastToRoom s rid m ex =
     s\<lparr>sent := sent s @ map (\<lambda>e. (p_ws (snd e), m))
                  (filter (\<lambda>e. Some (fst e) \<noteq> ex \<and> readyState (sock s (p_ws (snd e))) = OPEN)
                     (participants room)),
       serialized := serialized s + 1\<rparr>"
  by (simp add: broadcastToRoom_def forEach_send_eq)

lemma update_absent: "k \<notin> fst ` set al \<Longrightarrow> AList.update k v al = al @ [(k, v)]"
  by (induction al) auto

section \<open>Leaving a room\<close>

lemma leaveRoom_idle:
  "\<not> truthy (roomId (sock s w)) \<or> map_of (rooms s) (roomId (sock s w)) = None \<Longrightarrow>
   leaveRoom fl s w = Done s"
  by (auto simp: leaveRoom_def Let_def)

lemma leaveRoom_threw:
  "threw (leaveRoom fl s w) =
     (truthy (roomId (sock s w)) \<and> \<not> printable (roomId (sock s w))
      \<and> (case map_of (rooms s) (roomId (sock s w)) of
            None \<Rightarrow> False
          | Some room \<Rightarrow> fl = Local \<or> AList.delete (sessionId (sock s w)) (participants room) = []))"
  by (auto simp: leaveRoom_def Let_def split: option.splits)

lemma leaveRoom_printable: "printable (roomId (sock s w)) \<Longrightarrow> \<not> threw (leaveRoom fl s w)"
  by (simp add: leaveRoom_threw)

lemma leaveRoom_rooms:
  "map_of (rooms (state_of (leaveRoom fl s w))) =
     (let x = sock s w in
      if \<not> truthy (roomId x) then map_of (rooms s)
      else case map_of (rooms s) (roomId x) of None \<Rightarrow> map_of (rooms s)
        | Some room \<Rightarrow>
           if AList.delete (sessionId x) (participants room) = []
              \<and> \<not> (fl = Local \<and> \<not> printable (roomId x))
           then (map_of (rooms s))(roomId x := None)
           else (map_of (rooms s))(roomId x \<mapsto>
                   room\<lparr>participants := AList.delete (sessionId x) (participants room)\<rparr>))"
  by (auto simp: leaveRoom_def Let_def update_conv' delete_conv' split: option.splits)

lemma leaveRoom_sock:
  "sock (state_of (leaveRoom fl s w)) w' =
     (if w' = w \<and> truthy (roomId (sock s w)) \<and> map_of (rooms s) (roomId (sock s w)) \<noteq> None
         \<and> \<not> threw (leaveRoom fl s w)
      then (sock s w)\<lparr>roomId := JNull\<rparr> else sock s w')"
  by (auto simp: leaveRoom_def Let_def split: option.splits)

lemma leaveRoom_proj [simp]:
  "connections (state_of (leaveRoom fl s w)) = connections s"
  "nextConn (state_of (leaveRoom fl s w)) = nextConn s"
  "crashed (state_of (leaveRoom fl s w)) = crashed s"
  "poseDataLimits (state_of (leaveRoom fl s w)) = poseDataLimits s"
  "sessionId (sock (state_of (leaveRoom fl s w)) w') = sessionId (sock s w')"
  "deviceType (sock (state_of (leaveRoom fl s w)) w') = deviceType (sock s w')"
  "readyState (sock (state_of (leaveRoom fl s w)) w') = readyState (sock s w')"
  by (simp_all add: leaveRoom_sock) (simp_all add: leaveRoom_def Let_def split: option.splits)

lemma leaveRoom_ok:
  "rooms_ok s \<Longrightarrow> fl = Cloud \<or> printable (roomId (sock s w)) \<Longrightarrow>
   rooms_ok (state_of (leaveRoom fl s w))"
  by (auto simp: rooms_ok_def leaveRoom_rooms Let_def split: option.splits if_splits)

lemma leaveRoom_absent:
  "map_of (rooms s) rid = None \<Longrightarrow> map_of (rooms (state_of (leaveRoom fl s w))) rid = None"
  by (auto simp: leaveRoom_rooms Let_def split: option.splits)

lemma leaveRoom_sole:
  assumes "truthy (roomId (sock s w))" "map_of (rooms s) (roomId (sock s w)) = Some room"
    "participants room = [(sessionId (sock s w), p)]" "printable (roomId (sock s w))"
  shows "leaveRoom fl s w =
           Done (s\<lparr>rooms := AList.delete (roomId (sock s w)) (rooms s),
                   serialized := serialized s + 1,
                   sock := (sock s)(w := (sock s w)\<lparr>roomId := JNull\<rparr>)\<rparr>)"
  using assms
  by (simp add: leaveRoom_def Let_def broadcastToRoom_def update_conv' delete_update_same)

section \<open>Joining a room\<close>

lemma joinRoom_body:
  "(let s1 = (if map_of (rooms s0) rid = None
              then s0\<lparr>rooms := AList.update rid
                      \<lparr>room_id = rid, created = now, participants = []\<rparr> (rooms s0)\<rparr>
              else s0);
        x = sock s1 w
    in if map_of (rooms s0) rid = None \<and> fl = Local \<and> \<not> printable rid then Thrown s1
       else case map_of (rooms s1) rid of
         None \<Rightarrow> Done s1
       | Some room \<Rightarrow>
           let room' = room\<lparr>participants := AList.update (sessionId x)
                         \<lparr>p_ws = w, p_deviceType = deviceType x, joinedAt = now\<rparr>
                         (participants room)\<rparr>;
               s2 = s1\<lparr>rooms := AList.update rid room' (rooms s1),
                       sock := (sock s1)(w := x\<lparr>roomId := rid\<rparr>)\<rparr>;
               plist = map (\<lambda>e. (sessionId (sock s2 (p_ws (snd e))),
                                  deviceType (sock s2 (p_ws (snd e))),
                                  joinedAt (snd e))) (participants room')
           in if fl = Local \<and> \<not> printable rid then Thrown s2
              else
                let s3 = send s2 w (RoomJoined rid
                           (filter (\<lambda>p. fst p \<noteq> sessionId x) plist) (created room'));
                    s4 = broadcastToRoom s3 rid
                           (ParticipantJoined (sessionId x) (deviceType x) now)
                           (Some (sessionId x));
                    hasPhone = list_ex (\<lambda>p. fst (snd p) = ''mobile'') plist;
                    hasVR = list_ex (\<lambda>p. fst (snd p) = ''vr'') plist
                in if fl = Local
                   then (if hasPhone \<and> hasVR
                         then Done (broadcastToRoom s4 rid
                                      (PairingSuccess (map (\<lambda>p. fst (snd p)) plist)) None)
                         else Done s4)
                   else (if \<not> printable rid then Thrown s4 else Done s4))
   = joinRoom_after fl s0 w rid now"
proof (cases "map_of (rooms s0) rid")
  case None
  then show ?thesis
    by (auto simp add: joinRoom_after_def joinRoom_stuck_def joinRoom_notify_def
          joinRoom_told_def joinRoom_enter_def plistOf_def participantsOf_def
          createdOf_def update_conv' Let_def)
next
  case (Some r)
  then show ?thesis
    by (simp add: joinRoom_after_def joinRoom_stuck_def joinRoom_notify_def
          joinRoom_told_def joinRoom_enter_def plistOf_def participantsOf_def
          createdOf_def update_conv' Let_def)
qed

lemma joinRoom_stages:
  "joinRoom fl s w rid now =
     (case (if truthy (roomId (sock s w)) then leaveRoom fl s w else Done s) of
        Thrown s0 \<Rightarrow> Thrown s0
      | Done s0 \<Rightarrow> joinRoom_after fl s0 w rid now)"
  unfolding joinRoom_def joinRoom_body ..

lemma enter_proj [simp]:
  "connections (joinRoom_enter s w rid now) = connections s"
  "nextConn (joinRoom_enter s w rid now) = nextConn s"
  "sent (joinRoom_enter s w rid now) = sent s"
  "serialized (joinRoom_enter s w rid now) = serialized s"
  "poseDataLimits (joinRoom_enter s w rid now) = poseDataLimits s"
  "messageCount (joinRoom_enter s w rid now) = messageCount s"
  "crashed (joinRoom_enter s w rid now) = crashed s"
  "sock (joinRoom_enter s w rid now) = (sock s)(w := (sock s w)\<lparr>roomId := rid\<rparr>)"
  by (simp_all add: joinRoom_enter_def Let_def)

lemma told_proj [simp]:
  "connections (joinRoom_told s w rid now) = connections s"
  "nextConn (joinRoom_told s w rid now) = nextConn s"
  "rooms (joinRoom_told s w rid now) = rooms s"
  "sock (joinRoom_told s w rid now) = sock s"
  "poseDataLimits (joinRoom_told s w rid now) = poseDataLimits s"
  "messageCount (joinRoom_told s w rid now) = messageCount s"
  "crashed (joinRoom_told s w rid now) = crashed s"
  by (simp_all add: joinRoom_told_def Let_def)

lemma notify_proj [simp]:
  "connections (state_of (joinRoom_notify fl s w rid now)) = connections s"
  "nextConn (state_of (joinRoom_notify fl s w rid now)) = nextConn s"
  "rooms (state_of (joinRoom_notify fl s w rid now)) = rooms s"
  "sock (state_of (joinRoom_notify fl s w rid now)) = sock s"
  "poseDataLimits (state_of (joinRoom_notify fl s w rid now)) = poseDataLimits s"
  "messageCount (state_of (joinRoom_notify fl s w rid now)) = messageCount s"
  "crashed (state_of (joinRoom_notify fl s w rid now)) = crashed s"
  by (simp_all add: joinRoom_notify_def)

lemma notify_threw: "threw (joinRoom_notify fl s w rid now) = (fl = Cloud \<and> \<not> printable rid)"
  by (cases fl) (simp_all add: joinRoom_notify_def)

lemma stuck_proj [simp]:
  "connections (joinRoom_stuck s w rid now) = connections s"
  "nextConn (joinRoom_stuck s w rid now) = nextConn s"
  "sent (joinRoom_stuck s w rid now) = sent s"
  "poseDataLimits (joinRoom_stuck s w rid now) = poseDataLimits s"
  "crashed (joinRoom_stuck s w rid now) = crashed s"
  "sessionId (sock (joinRoom_stuck s w rid now) w') = sessionId (sock s w')"
  "deviceType (sock (joinRoom_stuck s w rid now) w') = deviceType (sock s w')"
  "readyState (sock (joinRoom_stuck s w rid now) w') = readyState (sock s w')"
  by (simp_all add: joinRoom_stuck_def)

lemma after_proj [simp]:
  "connections (state_of (joinRoom_after fl s w rid now)) = connections s"
  "nextConn (state_of (joinRoom_after fl s w rid now)) = nextConn s"
  "poseDataLimits (state_of (joinRoom_after fl s w rid now)) = poseDataLimits s"
  "crashed (state_of (joinRoom_after fl s w rid now)) = crashed s"
  "sessionId (sock (state_of (joinRoom_after fl s w rid now)) w') = sessionId (sock s w')"
  "deviceType (sock (state_of (joinRoom_after fl s w rid now)) w') = deviceType (sock s w')"
  "readyState (sock (state_of (joinRoom_after fl s w rid now)) w') = readyState (sock s w')"
  by (simp_all add: joinRoom_after_def)

lemma after_threw: "threw (joinRoom_after fl s w rid now) = (\<not> printable rid)"
  by (cases fl) (simp_all add: joinRoom_after_def notify_threw)

lemma joinRoom_proj [simp]:
  "connections (state_of (joinRoom fl s w rid now)) = connections s"
  "nextConn (state_of (joinRoom fl s w rid now)) = nextConn s"
  "poseDataLimits (state_of (joinRoom fl s w rid now)) = poseDataLimits s"
  "crashed (state_of (joinRoom fl s w rid now)) = crashed s"
  "sessionId (sock (state_of (joinRoom fl s w rid now)) w') = sessionId (sock s w')"
  "deviceType (sock (state_of (joinRoom fl s w rid now)) w') = deviceType (sock s w')"
  "readyState (sock (state_of (joinRoom fl s w rid now)) w') = readyState (sock s w')"
  using leaveRoom_proj[of fl s w]
  by (cases "leaveRoom fl s w"; simp add: joinRoom_stages)+

lemma joinRoom_threw:
  "threw (joinRoom fl s w rid now) =
     ((truthy (roomId (sock s w)) \<and> threw (leaveRoom fl s w)) \<or> \<not> printable rid)"
  by (cases "leaveRoom fl s w") (simp_all add: joinRoom_stages after_threw)

lemma joinRoom_printable:
  "printable rid \<Longrightarrow> printable (roomId (sock s w)) \<Longrightarrow> \<not> threw (joinRoom fl s w rid now)"
  by (simp add: joinRoom_threw leaveRoom_printable)

section \<open>No room of the directory is empty\<close>

lemma rooms_ok_eq: "rooms s' = rooms s \<Longrightarrow> rooms_ok s' = rooms_ok s"
  by (simp add: rooms_ok_def)

lemma ids_printable_eq:
  "(\<And>w. roomId (sock s' w) = roomId (sock s w)) \<Longrightarrow> ids_printable s' = ids_printable s"
  by (simp add: ids_printable_def)

lemma steady_eq:
  "rooms s' = rooms s \<Longrightarrow> (\<And>w. roomId (sock s' w) = roomId (sock s w)) \<Longrightarrow>
   steady fl s' = steady fl s"
  by (simp add: steady_def rooms_ok_def ids_printable_def)

lemma leaveRoom_ids: "ids_printable s \<Longrightarrow> ids_printable (state_of (leaveRoom fl s w))"
  by (simp add: ids_printable_def leaveRoom_sock)

lemma leaveRoom_steady:
  assumes "steady fl s"
  shows "steady fl (state_of (leaveRoom fl s w))"
proof -
  have "fl = Cloud \<or> printable (roomId (sock s w))"
    using assms by (auto simp: steady_def ids_printable_def)
  then have "rooms_ok (state_of (leaveRoom fl s w))"
    using assms by (auto simp: steady_def intro: leaveRoom_ok)
  moreover have "fl = Cloud \<or> ids_printable (state_of (leaveRoom fl s w))"
    using assms by (auto simp: steady_def intro: leaveRoom_ids)
  ultimately show ?thesis
    by (simp add: steady_def)
qed

lemma enter_ok: "rooms_ok s \<Longrightarrow> rooms_ok (joinRoom_enter s w rid now)"
  by (auto simp: rooms_ok_def joinRoom_enter_def Let_def update_conv' split: option.splits if_splits)

lemma after_steady:
  assumes "steady fl s" "fl = Cloud \<or> printable rid"
  shows "steady fl (state_of (joinRoom_after fl s w rid now))"
proof -
  have "steady fl (joinRoom_enter s w rid now)"
    using assms by (auto simp: steady_def enter_ok ids_printable_def)
  moreover have "steady fl (state_of (joinRoom_notify fl (joinRoom_enter s w rid now) w rid now))
                 = steady fl (joinRoom_enter s w rid now)"
    by (rule steady_eq) simp_all
  ultimately show ?thesis
    using assms(2) by (auto simp: joinRoom_after_def)
qed

lemma joinRoom_steady:
  assumes "steady fl s" "fl = Cloud \<or> printable rid"
  shows "steady fl (state_of (joinRoom fl s w rid now))"
proof (cases "truthy (roomId (sock s w))")
  case False
  then show ?thesis
    using after_steady[OF assms] by (simp add: joinRoom_stages)
next
  case True
  show ?thesis
  proof (cases "leaveRoom fl s w")
    case (Done s0)
    then have "steady fl s0"
      using leaveRoom_steady[OF assms(1), of w] by simp
    from after_steady[OF this assms(2)] show ?thesis
      using True Done by (simp add: joinRoom_stages)
  next
    case (Thrown s0)
    then have "steady fl s0"
      using leaveRoom_steady[OF assms(1), of w] by simp
    then show ?thesis
      using True Thrown by (simp add: joinRoom_stages)
  qed
qed

lemma handlePoseData_proj [simp]:
  "rooms (state_of (handlePoseData fl s w m now)) = rooms s"
  "sock (state_of (handlePoseData fl s w m now)) = sock s"
  "connections (state_of (handlePoseData fl s w m now)) = connections s"
  "nextConn (state_of (handlePoseData fl s w m now)) = nextConn s"
  "crashed (state_of (handlePoseData fl s w m now)) = crashed s"
  by (cases fl; simp add: handlePoseData_def Let_def split: ts_view.splits)+

lemma registerDevice_proj [simp]:
  "rooms (registerDevice s w c d) = rooms s"
  "roomId (sock (registerDevice s w c d) w') = roomId (sock s w')"
  "connections (registerDevice s w c d) = connections s"
  "nextConn (registerDevice s w c d) = nextConn s"
  "crashed (registerDevice s w c d) = crashed s"
  by (simp_all add: registerDevice_def Let_def)

lemma handleSyncRequest_proj [simp]:
  "rooms (handleSyncRequest s w t b now) = rooms s"
  "sock (handleSyncRequest s w t b now) = sock s"
  "connections (handleSyncRequest s w t b now) = connections s"
  "nextConn (handleSyncRequest s w t b now) = nextConn s"
  "crashed (handleSyncRequest s w t b now) = crashed s"
  by (simp_all add: handleSyncRequest_def split: option.splits jsval.splits)

lemma unknownType_proj [simp]:
  "rooms (state_of (unknownType s w m now)) = rooms s"
  "sock (state_of (unknownType s w m now)) = sock s"
  "connections (state_of (unknownType s w m now)) = connections s"
  "nextConn (state_of (unknownType s w m now)) = nextConn s"
  "crashed (state_of (unknownType s w m now)) = crashed s"
  by (simp_all add: unknownType_def split: option.splits)

lemma steady_simps [simp]:
  "steady fl (send s w e) = steady fl s"
  "steady fl (sendError s w t now) = steady fl s"
  "steady fl (state_of (handlePoseData fl' s w p now)) = steady fl s"
  "steady fl (registerDevice s w c d) = steady fl s"
  "steady fl (handleSyncRequest s w t' b now) = steady fl s"
  "steady fl (sendRoomList s w) = steady fl s"
  "steady fl (sendStats s w) = steady fl s"
  "steady fl (state_of (unknownType s w m now)) = steady fl s"
  "steady fl (s\<lparr>messageCount := n\<rparr>) = steady fl s"
  "steady fl (s\<lparr>connections := cs\<rparr>) = steady fl s"
  "steady fl (s\<lparr>poseDataLimits := ls\<rparr>) = steady fl s"
  "steady fl (s\<lparr>nextConn := k\<rparr>) = steady fl s"
  "steady fl (s\<lparr>totalConnections := n\<rparr>) = steady fl s"
  "steady fl (s\<lparr>currentConnections := i\<rparr>) = steady fl s"
  "steady fl (s\<lparr>crashed := c'\<rparr>) = steady fl s"
  by (rule steady_eq, simp_all add: sendRoomList_def sendStats_def)+

lemma handleMessage_steady:
  assumes "steady fl s" "fl = Cloud \<or> (case m of JoinRoomMsg r \<Rightarrow> printable r | _ \<Rightarrow> True)"
  shows "steady fl (state_of (handleMessage fl s w m rnd now))"
proof (cases m)
  case (JoinRoomMsg r)
  then show ?thesis
    using assms joinRoom_steady[OF assms(1), of r w now] by (auto simp: handleMessage_def)
next
  case CreateRoomMsg
  have "steady fl (state_of (joinRoom fl s w (JStr rnd) now))"
    by (rule joinRoom_steady[OF assms(1)]) simp
  then show ?thesis
    using CreateRoomMsg assms(1)
    by (cases "joinRoom fl s w (JStr rnd) now") (auto simp: handleMessage_def)
next
  case LeaveRoomMsg
  then show ?thesis
    using leaveRoom_steady[OF assms(1), of w] by (simp add: handleMessage_def)
qed (use assms(1) in \<open>auto simp: handleMessage_def\<close>)

lemma onMessage_steady:
  assumes "steady fl s" "fl = Cloud \<or> (case d of Json (JoinRoomMsg r) \<Rightarrow> printable r | _ \<Rightarrow> True)"
  shows "steady fl (onMessage fl s w d rnd now)"
proof (cases d)
  case (Json m)
  have "steady fl (s\<lparr>messageCount := messageCount s + 1\<rparr>)"
    using assms(1) by simp
  from handleMessage_steady[OF this, of m w rnd now] show ?thesis
    using Json assms(2)
    by (cases "handleMessage fl (s\<lparr>messageCount := messageCount s + 1\<rparr>) w m rnd now")
       (auto simp: onMessage_def split: message.splits)
qed (use assms(1) in \<open>simp_all add: onMessage_def\<close>)

lemma cleanup_steady: "steady fl s \<Longrightarrow> steady fl (state_of (cleanup fl s w))"
proof -
  assume "steady fl s"
  then have "steady fl (s\<lparr>connections := AList.delete (sessionId (sock s w)) (connections s)\<rparr>)"
    by simp
  from leaveRoom_steady[OF this, of w] show ?thesis
    by (cases "leaveRoom fl (s\<lparr>connections := AList.delete (sessionId (sock s w)) (connections s)\<rparr>) w")
       (auto simp: cleanup_def)
qed

lemma uncaught_steady [simp]: "steady fl (uncaught r) = steady fl (state_of r)"
  by (cases r) (simp_all add: uncaught_def)

lemma newsock_steady:
  "steady fl s \<Longrightarrow> printable (roomId x) \<Longrightarrow> steady fl (s\<lparr>sock := (sock s)(w := x)\<rparr>)"
  by (auto simp: steady_def rooms_ok_def ids_printable_def)

lemma onConnection_unfold:
  "onConnection fl s qs qd qr g g' now =
     (let sid = (case qs of None \<Rightarrow> g | Some q \<Rightarrow> if q = [] then g else q);
          dev = (case qd of None \<Rightarrow> ''unknown'' | Some d \<Rightarrow> if d = [] then ''unknown'' else d);
          rid = (case qr of None \<Rightarrow> JNull | Some r \<Rightarrow> JStr r);
          x = \<lparr>sessionId = sid, deviceType = dev, roomId = rid, isAlive = True,
               connectedAt = now, readyState = OPEN, capabilities = None, deviceInfo = None\<rparr>;
          s1 = s\<lparr>sock := (sock s)(nextConn s := x), nextConn := nextConn s + 1,
                  connections := AList.update sid (nextConn s) (connections s)\<rparr>;
          s2 = (if fl = Local
                then s1\<lparr>totalConnections := totalConnections s1 + 1,
                        currentConnections := currentConnections s1 + 1\<rparr>
                else s1)
      in uncaught (case (if truthy rid then joinRoom fl s2 (nextConn s) rid now else Done s2) of
           Thrown s3 \<Rightarrow> Thrown s3
         | Done s3 \<Rightarrow>
             Done (send s3 (nextConn s)
                     (Connected sid dev now (if fl = Cloud then g' else ''1.0.0-dev'')))))"
  unfolding onConnection_def Let_def uncaught_def
  by (simp split: outcome.splits)

lemma onConnection_steady:
  assumes "steady fl s"
  shows "steady fl (onConnection fl s qs qd qr g g' now)"
proof -
  define sid where "sid = (case qs of None \<Rightarrow> g | Some q \<Rightarrow> if q = [] then g else q)"
  define dev where
    "dev = (case qd of None \<Rightarrow> ''unknown'' | Some d \<Rightarrow> if d = [] then ''unknown'' else d)"
  define rid where "rid = (case qr of None \<Rightarrow> JNull | Some r \<Rightarrow> JStr r)"
  define x where "x = \<lparr>sessionId = sid, deviceType = dev, roomId = rid, isAlive = True,
      connectedAt = now, readyState = OPEN, capabilities = None, deviceInfo = None\<rparr>"
  define s1 where "s1 = s\<lparr>sock := (sock s)(nextConn s := x), nextConn := nextConn s + 1,
      connections := AList.update sid (nextConn s) (connections s)\<rparr>"
  define s2 where "s2 = (if fl = Local
                then s1\<lparr>totalConnections := totalConnections s1 + 1,
                        currentConnections := currentConnections s1 + 1\<rparr>
                else s1)"
  have p: "printable rid"
    by (simp add: rid_def split: option.splits)
  have "steady fl (s\<lparr>sock := (sock s)(nextConn s := x)\<rparr>)"
    by (rule newsock_steady[OF assms]) (simp add: x_def p)
  then have s2: "steady fl s2"
    by (auto simp: s2_def s1_def)
  have j: "steady fl (state_of (joinRoom fl s2 (nextConn s) rid now))"
    by (rule joinRoom_steady[OF s2]) (simp add: p)
  have "onConnection fl s qs qd qr g g' now =
          uncaught (case (if truthy rid then joinRoom fl s2 (nextConn s) rid now else Done s2) of
             Thrown s3 \<Rightarrow> Thrown s3
           | Done s3 \<Rightarrow> Done (send s3 (nextConn s) (Connected sid dev now
                           (if fl = Cloud then g' else ''1.0.0-dev''))))"
    unfolding onConnection_unfold sid_def dev_def rid_def x_def s1_def s2_def Let_def ..
  then show ?thesis
    using s2 j by (cases "joinRoom fl s2 (nextConn s) rid now") auto
qed

lemma onClose_steady: "steady fl s \<Longrightarrow> steady fl (onClose fl s w)"
proof -
  assume a: "steady fl s"
  define s2 where "s2 = (if fl = Local
      then s\<lparr>sock := (sock s)(w := (sock s w)\<lparr>readyState := CLOSED\<rparr>),
             currentConnections := currentConnections s - 1\<rparr>
      else s\<lparr>sock := (sock s)(w := (sock s w)\<lparr>readyState := CLOSED\<rparr>)\<rparr>)"
  have "steady fl s2 = steady fl s"
    by (rule steady_eq) (simp_all add: s2_def)
  then have "steady fl (state_of (cleanup fl s2 w))"
    using a by (simp add: cleanup_steady)
  then show ?thesis
    by (cases fl) (simp_all add: onClose_def Let_def s2_def)
qed

lemma onError_steady: "steady fl s \<Longrightarrow> steady fl (onError fl s w)"
  by (simp add: onError_def cleanup_steady)

lemma fine_message:
  "fine fl (Message w d rnd now) =
     (fl = Cloud \<or> (case d of Json (JoinRoomMsg r) \<Rightarrow> printable r | _ \<Rightarrow> True))"
proof (cases d)
  case (Json m)
  then show ?thesis
    by (cases m) (simp_all add: fine_def)
qed (simp_all add: fine_def)

lemma step_steady: "steady fl s \<Longrightarrow> fine fl ev \<Longrightarrow> steady fl (step fl s ev)"
proof (cases ev)
  case (Message w d rnd now)
  assume "steady fl s" "fine fl ev"
  then show ?thesis
    using Message onMessage_steady[of fl s d w rnd now]
    by (simp add: step_def fine_message)
qed (auto simp: step_def onClose_steady onError_steady onConnection_steady)

lemma run_steady: "steady fl s \<Longrightarrow> \<forall>ev\<in>set evs. fine fl ev \<Longrightarrow> steady fl (run fl s evs)"
  by (induction evs arbitrary: s) (simp_all add: step_steady)

lemma init_steady: "steady fl init"
  by (simp add: steady_def rooms_ok_def ids_printable_def init_def)


section \<open>Room directory\<close>

text \<open>
  What holds of the directory. In every state server.js reaches from start-up, whatever
  the connections, frames, closes and errors, a room code is in the directory exactly when
  its participant list is not empty; the same holds of local-server.js as long as every
  room id that a \<^verbatim>\<open>join_room\<close> frame carries can be printed. In server.js a join on a code
  that is not in the directory, once the leave of the current room has returned, leaves the
  directory holding that code with the joiner as the only participant, and a leave that
  removes the last participant entry removes the room from the directory in the same call.
\<close>

lemma directory_nonempty:
  assumes "\<forall>ev\<in>set evs. fine fl ev"
  shows "(map_of (rooms (run fl init evs)) rid \<noteq> None) = (participantsOf (run fl init evs) rid \<noteq> [])"
proof -
  have "rooms_ok (run fl init evs)"
    using run_steady[OF init_steady assms] by (simp add: steady_def)
  then show ?thesis
    by (auto simp: rooms_ok_def participantsOf_def split: option.splits)
qed

lemma server_js_directory:
  "(map_of (rooms (run Cloud init evs)) rid \<noteq> None) = (participantsOf (run Cloud init evs) rid \<noteq> [])"
  by (rule directory_nonempty) (simp add: fine_def)

lemma local_server_directory:
  "\<forall>ev\<in>set evs. printable_codes ev \<Longrightarrow>
   (map_of (rooms (run Local init evs)) rid \<noteq> None) = (participantsOf (run Local init evs) rid \<noteq> [])"
  by (rule directory_nonempty) (simp add: fine_def)

lemma server_js_join_creates:
  assumes "map_of (rooms s) rid = None"
    and "\<not> (truthy (roomId (sock s w)) \<and> threw (leaveRoom Cloud s w))"
  shows "map_of (rooms (state_of (joinRoom Cloud s w rid now))) rid =
          Some \<lparr>room_id = rid, created = now,
                participants = [(sessionId (sock s w),
                   \<lparr>p_ws = w, p_deviceType = deviceType (sock s w), joinedAt = now\<rparr>)]\<rparr>"
proof -
  have e: "map_of (rooms s0) rid = None \<Longrightarrow>
           map_of (rooms (state_of (joinRoom_after Cloud s0 w rid now))) rid =
             Some \<lparr>room_id = rid, created = now,
                participants = [(sessionId (sock s0 w),
                   \<lparr>p_ws = w, p_deviceType = deviceType (sock s0 w), joinedAt = now\<rparr>)]\<rparr>" for s0
    by (simp add: joinRoom_after_def joinRoom_enter_def Let_def update_conv')
  show ?thesis
  proof (cases "truthy (roomId (sock s w))")
    case False
    then show ?thesis
      using e[OF assms(1)] by (simp add: joinRoom_stages)
  next
    case True
    with assms(2) obtain s0 where s0: "leaveRoom Cloud s w = Done s0"
      by (cases "leaveRoom Cloud s w") simp_all
    have "map_of (rooms s0) rid = None" "sessionId (sock s0 w) = sessionId (sock s w)"
      "deviceType (sock s0 w) = deviceType (sock s w)"
      using leaveRoom_absent[OF assms(1), of Cloud w] leaveRoom_proj(5,6)[of Cloud s w w] s0
      by simp_all
    then show ?thesis
      using e[of s0] True s0 by (simp add: joinRoom_stages)
  qed
qed

lemma server_js_last_leave_deletes:
  assumes "truthy (roomId (sock s w))" "map_of (rooms s) (roomId (sock s w)) = Some r"
    and "AList.delete (sessionId (sock s w)) (participants r) = []"
  shows "map_of (rooms (state_of (leaveRoom Cloud s w))) (roomId (sock s w)) = None"
  using assms by (simp add: leaveRoom_rooms Let_def)

text \<open>
  Claim C1, at the inputs where the code departs from it. A frame
  \<^verbatim>\<open>{"type":"join_room","roomId":{"toString":1}}\<close> names a room by an object that cannot be
  printed. local-server.js creates the room and then throws while it logs the creation,
  before it has set the participant entry: the listener answers "Invalid message format"
  and the directory keeps a room without participants, which nobody is a member of and
  which the close of the connection does not remove. server.js logs at the end of the
  join, so there the room has its joiner; but when that session joins another room, the
  leave deletes the emptied room and then throws while it logs the deletion, so the join
  that called it is given up: room \<open>B\<close> is not created and the session is in no room.
\<close>

theorem unprintable_room_id_breaks_directory:
  "map_of (rooms (run Local init scenario_unprintable)) (JObj 0 False) =
     Some \<lparr>room_id = JObj 0 False, created = 6, participants = []\<rparr>
   \<and> participantsOf (run Local init scenario_unprintable) (JObj 0 False) = []
   \<and> roomId (sock (run Local init scenario_unprintable) 0) = JNull
   \<and> sent (run Local init scenario_unprintable) =
       [(0, Connected ''a'' ''mobile'' 5 ''1.0.0-dev''), (0, ErrorEnv ''Invalid message format'' 6)]
   \<and> map_of (rooms (run Local init (scenario_unprintable @ [Close 0]))) (JObj 0 False) =
       Some \<lparr>room_id = JObj 0 False, created = 6, participants = []\<rparr>
   \<and> participantsOf (run Cloud init scenario_unprintable) (JObj 0 False) =
       [(''a'', \<lparr>p_ws = 0, p_deviceType = ''mobile'', joinedAt = 6\<rparr>)]
   \<and> map_of (rooms (run Cloud init scenario_unprintable)) (JStr ''B'') = None
   \<and> rooms (run Cloud init scenario_unprintable_next) = []
   \<and> sent (run Cloud init scenario_unprintable_next) =
       sent (run Cloud init scenario_unprintable) @ [(0, ErrorEnv ''Invalid message format'' 7)]"
  by code_simp

section \<open>Broadcast\<close>

text \<open>
  Claim C5. For a room code that is in the directory, \<^verbatim>\<open>broadcastToRoom\<close> calls
  \<^verbatim>\<open>JSON.stringify\<close> once and hands that one serialized envelope, in insertion order, to
  every participant entry whose key is not the excluded session id and whose socket is
  open; entries under the excluded id and entries whose socket is not open get nothing, and
  nothing else in the server changes (no error is raised or sent).
\<close>

theorem broadcast_delivery:
  assumes "map_of (rooms s) rid = Some room"
  shows "broadcastToRoom s rid m ex =
           s\<lparr>sent := sent s @ map (\<lambda>e. (p_ws (snd e), m))
                        (filter (\<lambda>e. Some (fst e) \<noteq> ex \<and> readyState (sock s (p_ws (snd e))) = OPEN)
                           (participants room)),
             serialized := serialized s + 1\<rparr>"
  using assms by (rule broadcast_present)

theorem broadcast_delivery_witness:
  "map_of (rooms (closing (run Cloud init scenario_three) 1)) (JStr ''R'') =
     Some \<lparr>room_id = JStr ''R'', created = 5,
           participants =
             [(''a'', \<lparr>p_ws = 0, p_deviceType = ''mobile'', joinedAt = 5\<rparr>),
              (''b'', \<lparr>p_ws = 1, p_deviceType = ''vr'', joinedAt = 6\<rparr>),
              (''c'', \<lparr>p_ws = 2, p_deviceType = ''mobile'', joinedAt = 7\<rparr>)]\<rparr>
   \<and> sent (broadcastToRoom (closing (run Cloud init scenario_three) 1) (JStr ''R'') (Pong 8)
             (Some ''a'')) =
       sent (closing (run Cloud init scenario_three) 1) @ [(2, Pong 8)]
   \<and> serialized (broadcastToRoom (closing (run Cloud init scenario_three) 1) (JStr ''R'')
             (Pong 8) (Some ''a'')) =
       serialized (closing (run Cloud init scenario_three) 1) + 1"
proof -
  let ?s = "closing (run Cloud init scenario_three) 1"
  let ?room = "\<lparr>room_id = JStr ''R'', created = 5,
           participants =
             [(''a'', \<lparr>p_ws = 0, p_deviceType = ''mobile'', joinedAt = 5\<rparr>),
              (''b'', \<lparr>p_ws = 1, p_deviceType = ''vr'', joinedAt = 6\<rparr>),
              (''c'', \<lparr>p_ws = 2, p_deviceType = ''mobile'', joinedAt = 7\<rparr>)]\<rparr>"
  have h: "map_of (rooms ?s) (JStr ''R'') = Some ?room"
    by code_simp
  have f: "map (\<lambda>e. (p_ws (snd e), Pong 8))
             (filter (\<lambda>e. Some (fst e) \<noteq> Some ''a'' \<and> readyState (sock ?s (p_ws (snd e))) = OPEN)
                (participants ?room)) = [(2, Pong 8)]"
    by code_simp
  from broadcast_delivery[OF h, of "Pong 8" "Some ''a''"] f h
  show ?thesis by simp
qed

section \<open>Protocol errors\<close>

text \<open>
  Claim C6, amended. For a frame that is not JSON, that is the JSON text \<^verbatim>\<open>null\<close>, or whose
  type the router of that server has no case for, arriving on an open connection: the server
  sends exactly one \<^verbatim>\<open>error\<close> envelope (text and time stamp) to that connection, adds one to
  the counter of received messages as it does for every frame, and changes nothing else; the
  socket stays open and a following \<^verbatim>\<open>ping\<close> on it is answered with \<^verbatim>\<open>pong\<close>. The text
  names the unknown type; when the type is an object that cannot be printed, building that
  text throws and the text is the one of a frame that is not JSON.
\<close>

theorem protocol_error_reply:
  assumes "readyState (sock s w) = OPEN"
    and "d = NotJSON \<or> d = JsonNull \<or> (\<exists>m. d = Json m \<and> \<not> recognized fl m)"
  shows "onMessage fl s w d rnd now =
            s\<lparr>messageCount := messageCount s + 1,
              sent := sent s @ [(w, ErrorEnv (case d of
                         Json m \<Rightarrow> (case typeName m of
                                      Some t \<Rightarrow> ''Unknown message type: '' @ t
                                    | None \<Rightarrow> ''Invalid message format'')
                       | _ \<Rightarrow> ''Invalid message format'') now)],
              serialized := serialized s + 1\<rparr>
         \<and> sent (onMessage fl (onMessage fl s w d rnd now) w (Json PingMsg) rnd' now') =
             sent (onMessage fl s w d rnd now) @ [(w, Pong now')]"
proof -
  let ?txt = "case d of
                Json m \<Rightarrow> (case typeName m of
                             Some t \<Rightarrow> ''Unknown message type: '' @ t
                           | None \<Rightarrow> ''Invalid message format'')
              | _ \<Rightarrow> ''Invalid message format''"
  have 1: "sendError (s\<lparr>messageCount := messageCount s + 1\<rparr>) w msg now =
        s\<lparr>messageCount := messageCount s + 1,
              sent := sent s @ [(w, ErrorEnv msg now)],
              serialized := serialized s + 1\<rparr>" for msg
    using assms(1) by (simp add: sendError_def send_def)
  have 2: "onMessage fl s w d rnd now =
             sendError (s\<lparr>messageCount := messageCount s + 1\<rparr>) w ?txt now"
  proof -
    consider "d = NotJSON" | "d = JsonNull" | m where "d = Json m" "\<not> recognized fl m"
      using assms(2) by blast
    then show ?thesis
    proof cases
      case 3
      then show ?thesis
        by (cases m; cases fl)
           (simp_all add: onMessage_def handleMessage_def unknownType_def split: option.splits)
    qed (simp_all add: onMessage_def)
  qed
  have 3: "onMessage fl s w d rnd now = s\<lparr>messageCount := messageCount s + 1,
              sent := sent s @ [(w, ErrorEnv ?txt now)],
              serialized := serialized s + 1\<rparr>"
    by (simp only: 2 1)
  have 4: "sent (onMessage fl (onMessage fl s w d rnd now) w (Json PingMsg) rnd' now') =
             sent (onMessage fl s w d rnd now) @ [(w, Pong now')]"
    by (simp add: 3) (simp add: onMessage_def handleMessage_def send_def assms(1))
  from 3 4 show ?thesis by blast
qed


theorem protocol_error_reply_witness:
  "readyState (sock (run Cloud init scenario_join) 0) = OPEN
   \<and> sent (onMessage Cloud (run Cloud init scenario_join) 0 NotJSON [] 9) =
       sent (run Cloud init scenario_join) @ [(0, ErrorEnv ''Invalid message format'' 9)]
   \<and> sent (onMessage Cloud (onMessage Cloud (run Cloud init scenario_join) 0 NotJSON [] 9) 0
             (Json PingMsg) [] 10) =
       sent (run Cloud init scenario_join) @
         [(0, ErrorEnv ''Invalid message format'' 9), (0, Pong 10)]"
proof -
  have h: "readyState (sock (run Cloud init scenario_join) 0) = OPEN"
    by code_simp
  have d: "NotJSON = NotJSON \<or> NotJSON = JsonNull \<or> (\<exists>m. NotJSON = Json m \<and> \<not> recognized Cloud m)"
    by simp
  note t = protocol_error_reply[OF h d, of "[]" 9 "[]" 10]
  have a: "sent (onMessage Cloud (run Cloud init scenario_join) 0 NotJSON [] 9) =
       sent (run Cloud init scenario_join) @ [(0, ErrorEnv ''Invalid message format'' 9)]"
    using t by simp
  have b: "sent (onMessage Cloud (onMessage Cloud (run Cloud init scenario_join) 0 NotJSON [] 9) 0
             (Json PingMsg) [] 10) =
       sent (onMessage Cloud (run Cloud init scenario_join) 0 NotJSON [] 9) @ [(0, Pong 10)]"
    using t by blast
  show ?thesis using h a b by simp
qed

text \<open>
  The claim as written (no state change besides the reply) fails on the counter of received
  messages, which the listener increments before it parses the frame.
\<close>

theorem protocol_error_counter_counterexample:
  "messageCount (onMessage Cloud (run Cloud init scenario_join) 0 NotJSON [] 9) \<noteq>
   messageCount (run Cloud init scenario_join)"
  by code_simp

section \<open>Sync requests\<close>

text \<open>
  Claim C8, amended. In server.js a \<^verbatim>\<open>sync_request\<close> that names a target session is
  forwarded, with all its fields and the sender's session id as \<^verbatim>\<open>sourceSession\<close>, to the
  socket registered under that id when that socket is open; when no socket is registered
  under the name or the registered one is not open, the (open) sender gets the \<^verbatim>\<open>error\<close>
  envelope "Target session not found". In local-server.js the router has no case for
  \<^verbatim>\<open>sync_request\<close>: the sender gets "Unknown message type: sync_request" whatever the
  state of the target.
\<close>

theorem sync_request_routing:
  assumes "truthy t"
  shows "(\<forall>k tg. t = JStr k \<and> map_of (connections s) k = Some tg \<and> readyState (sock s tg) = OPEN \<longrightarrow>
            handleMessage Cloud s w (SyncRequestMsg t b) rnd now =
              Done (s\<lparr>sent := sent s @ [(tg, SyncForward t b (sessionId (sock s w)))],
                      serialized := serialized s + 1\<rparr>))
       \<and> (\<not> (\<exists>k tg. t = JStr k \<and> map_of (connections s) k = Some tg \<and> readyState (sock s tg) = OPEN)
            \<and> readyState (sock s w) = OPEN \<longrightarrow>
            handleMessage Cloud s w (SyncRequestMsg t b) rnd now =
              Done (s\<lparr>sent := sent s @ [(w, ErrorEnv ''Target session not found'' now)],
                      serialized := serialized s + 1\<rparr>))
       \<and> handleMessage Local s w (SyncRequestMsg t b) rnd now =
           Done (sendError s w ''Unknown message type: sync_request'' now)"
  using assms
  by (auto simp: handleMessage_def handleSyncRequest_def unknownType_def send_def sendError_def
           split: jsval.splits option.splits)

theorem sync_request_routing_witness:
  "truthy (JStr ''b'')
   \<and> map_of (connections (run Cloud init scenario_pair)) ''b'' = Some 1
   \<and> readyState (sock (run Cloud init scenario_pair) 1) = OPEN
   \<and> sent (state_of (handleMessage Cloud (run Cloud init scenario_pair) 0
              (SyncRequestMsg (JStr ''b'') ''{}'') [] 7)) =
       sent (run Cloud init scenario_pair) @ [(1, SyncForward (JStr ''b'') ''{}'' ''a'')]
   \<and> truthy (JStr ''zz'')
   \<and> map_of (connections (run Cloud init scenario_pair)) ''zz'' = None
   \<and> readyState (sock (run Cloud init scenario_pair) 0) = OPEN
   \<and> sent (state_of (handleMessage Cloud (run Cloud init scenario_pair) 0
              (SyncRequestMsg (JStr ''zz'') ''{}'') [] 7)) =
       sent (run Cloud init scenario_pair) @ [(0, ErrorEnv ''Target session not found'' 7)]"
proof -
  let ?s = "run Cloud init scenario_pair"
  have b: "map_of (connections ?s) ''b'' = Some 1" "readyState (sock ?s 1) = OPEN"
    by code_simp+
  have z: "map_of (connections ?s) ''zz'' = None" "readyState (sock ?s 0) = OPEN"
    by code_simp+
  have a: "sessionId (sock ?s 0) = ''a''"
    by code_simp
  have tb: "truthy (JStr ''b'')" and tz: "truthy (JStr ''zz'')"
    by simp_all
  from sync_request_routing[OF tb, of ?s 0 "''{}''" "[]" 7] b a
  have 1: "sent (state_of (handleMessage Cloud ?s 0 (SyncRequestMsg (JStr ''b'') ''{}'') [] 7)) =
       sent ?s @ [(1, SyncForward (JStr ''b'') ''{}'' ''a'')]"
    by simp
  from sync_request_routing[OF tz, of ?s 0 "''{}''" "[]" 7] z
  have 2: "sent (state_of (handleMessage Cloud ?s 0 (SyncRequestMsg (JStr ''zz'') ''{}'') [] 7)) =
       sent ?s @ [(0, ErrorEnv ''Target session not found'' 7)]"
    by simp
  from 1 2 b z show ?thesis by simp
qed

text \<open>
  On the development server the target \<open>b\<close> is registered and open, yet nothing is
  forwarded to it and the sender is told that the type is unknown.
\<close>

theorem sync_request_local_counterexample:
  "map_of (connections (run Local init scenario_pair)) ''b'' = Some 1
   \<and> readyState (sock (run Local init scenario_pair) 1) = OPEN
   \<and> sent (run Local init scenario_sync) =
       sent (run Local init scenario_pair) @
         [(0, ErrorEnv ''Unknown message type: sync_request'' 7)]"
  by code_simp

section \<open>Session registry\<close>

lemma welcome_proj:
  "connections (uncaught (case r of Thrown s3 \<Rightarrow> Thrown s3 | Done s3 \<Rightarrow> Done (send s3 w e))) =
     connections (state_of r)"
  "nextConn (uncaught (case r of Thrown s3 \<Rightarrow> Thrown s3 | Done s3 \<Rightarrow> Done (send s3 w e))) =
     nextConn (state_of r)"
  "sock (uncaught (case r of Thrown s3 \<Rightarrow> Thrown s3 | Done s3 \<Rightarrow> Done (send s3 w e))) =
     sock (state_of r)"
  by (cases r; simp add: uncaught_def)+

text \<open>
  Claim C7, amended. Registration gives the new connection the session id of the URL
  whenever that is a non-empty string, and the value of \<^verbatim>\<open>generateId()\<close> otherwise; it does
  not look the id up among the active sessions. The registry entry for the id then points to
  the new socket (an entry that was there is overwritten), the new socket is open, and no
  other socket changes its id or its state.
\<close>

theorem registration_takes_supplied_id:
  "sessionId (sock (onConnection fl s qs qd qr g g' now) (nextConn s)) =
     (case qs of None \<Rightarrow> g | Some q \<Rightarrow> if q = [] then g else q)
   \<and> map_of (connections (onConnection fl s qs qd qr g g' now))
       (case qs of None \<Rightarrow> g | Some q \<Rightarrow> if q = [] then g else q) = Some (nextConn s)
   \<and> readyState (sock (onConnection fl s qs qd qr g g' now) (nextConn s)) = OPEN
   \<and> nextConn (onConnection fl s qs qd qr g g' now) = nextConn s + 1
   \<and> (\<forall>w. w \<noteq> nextConn s \<longrightarrow>
         sessionId (sock (onConnection fl s qs qd qr g g' now) w) = sessionId (sock s w)
         \<and> readyState (sock (onConnection fl s qs qd qr g g' now) w) = readyState (sock s w))"
  by (auto simp: onConnection_unfold Let_def welcome_proj update_conv' split: option.splits)

theorem registration_takes_supplied_id_witness:
  "sessionId (sock (run Cloud init [Connect (Some ''a'') None None ''g1'' ''g2'' 5]) 0) = ''a''
   \<and> nextConn (run Cloud init [Connect (Some ''a'') None None ''g1'' ''g2'' 5]) = 1
   \<and> sessionId (sock (onConnection Cloud
          (run Cloud init [Connect (Some ''a'') None None ''g1'' ''g2'' 5])
          (Some ''a'') None None ''g3'' ''g4'' 6) 1) = ''a''
   \<and> map_of (connections (onConnection Cloud
          (run Cloud init [Connect (Some ''a'') None None ''g1'' ''g2'' 5])
          (Some ''a'') None None ''g3'' ''g4'' 6)) ''a'' = Some 1
   \<and> sessionId (sock (onConnection Cloud
          (run Cloud init [Connect (Some ''a'') None None ''g1'' ''g2'' 5])
          (Some ''a'') None None ''g3'' ''g4'' 6) 0) = ''a''"
proof -
  let ?s = "run Cloud init [Connect (Some ''a'') None None ''g1'' ''g2'' 5]"
  have n: "nextConn ?s = 1" and a: "sessionId (sock ?s 0) = ''a''"
    by code_simp+
  have d: "(0::nat) \<noteq> 1"
    by simp
  from registration_takes_supplied_id[of Cloud ?s "Some ''a''" None None "''g3''" "''g4''" 6] n a d
  show ?thesis by simp
qed

text \<open>
  Two open connections that both asked for the id \<open>a\<close> hold it at the same time; the
  registry knows the later one only.
\<close>

theorem session_id_collision_counterexample:
  "sessionId (sock (run Cloud init scenario_collision) 0) =
     sessionId (sock (run Cloud init scenario_collision) 1)
   \<and> readyState (sock (run Cloud init scenario_collision) 0) = OPEN
   \<and> readyState (sock (run Cloud init scenario_collision) 1) = OPEN
   \<and> map_of (connections (run Cloud init scenario_collision)) ''a'' = Some 1"
  by code_simp

section \<open>Membership in one room\<close>

text \<open>
  As long as every room code that clients ask to join counts as true in JavaScript, a
  socket is a member of at most one room, the one \<^verbatim>\<open>ws.roomId\<close> names, in every state the
  server can reach; session ids shared by several sockets do not change this.
\<close>

lemma set_delete: "set (AList.delete k al) = {e \<in> set al. fst e \<noteq> k}"
  by (auto simp: AList.delete_eq)

lemma set_update_subset: "set (AList.update k v al) \<subseteq> insert (k, v) (set al)"
  by (induction al) auto

lemma entries_okI:
  assumes "\<And>rid r e. map_of (rooms s) rid = Some r \<Longrightarrow> e \<in> set (participants r) \<Longrightarrow>
        truthy rid \<and> roomId (sock s (p_ws (snd e))) = rid
        \<and> fst e = sessionId (sock s (p_ws (snd e))) \<and> p_ws (snd e) < nextConn s"
  shows "entries_ok s"
  using assms unfolding entries_ok_def by blast

lemma entries_okD:
  assumes "entries_ok s" "map_of (rooms s) rid = Some r" "e \<in> set (participants r)"
  shows "truthy rid" "roomId (sock s (p_ws (snd e))) = rid"
    "fst e = sessionId (sock s (p_ws (snd e)))" "p_ws (snd e) < nextConn s"
  using assms unfolding entries_ok_def by blast+

lemma entries_ok_eq:
  "rooms s' = rooms s \<Longrightarrow> nextConn s' = nextConn s \<Longrightarrow>
   (\<And>w. roomId (sock s' w) = roomId (sock s w)) \<Longrightarrow>
   (\<And>w. sessionId (sock s' w) = sessionId (sock s w)) \<Longrightarrow>
   entries_ok s' = entries_ok s"
  by (simp add: entries_ok_def)

lemma leaveRoom_entries:
  assumes ok: "entries_ok s"
  shows "entries_ok (state_of (leaveRoom fl s w))
         \<and> (truthy (roomId (sock s w)) \<longrightarrow> absent (state_of (leaveRoom fl s w)) w)"
proof (cases "truthy (roomId (sock s w)) \<and> map_of (rooms s) (roomId (sock s w)) \<noteq> None")
  case False
  then have same: "leaveRoom fl s w = Done s"
    by (auto simp: leaveRoom_idle)
  have "truthy (roomId (sock s w)) \<Longrightarrow> absent s w"
    unfolding absent_def using False entries_okD(2)[OF ok] by fastforce
  with ok same show ?thesis by simp
next
  case True
  then obtain room where room: "map_of (rooms s) (roomId (sock s w)) = Some room"
    and t: "truthy (roomId (sock s w))" by auto
  let ?rid = "roomId (sock s w)"
  let ?s' = "state_of (leaveRoom fl s w)"
  have nx: "nextConn ?s' = nextConn s" by simp
  have sk: "w' \<noteq> w \<Longrightarrow> sock ?s' w' = sock s w'" for w'
    by (simp add: leaveRoom_sock)
  have key: "map_of (rooms ?s') rid = Some r \<Longrightarrow> e \<in> set (participants r) \<Longrightarrow>
     (\<exists>r0. map_of (rooms s) rid = Some r0 \<and> e \<in> set (participants r0)) \<and> p_ws (snd e) \<noteq> w" for rid r e
  proof -
    assume a: "map_of (rooms ?s') rid = Some r" "e \<in> set (participants r)"
    show ?thesis
    proof (cases "rid = ?rid")
      case True
      with a room t have "e \<in> set (participants room) \<and> fst e \<noteq> sessionId (sock s w)"
        by (auto simp: leaveRoom_rooms Let_def set_delete split: if_splits)
      moreover from this entries_okD(3)[OF ok room, of e] have "p_ws (snd e) \<noteq> w" by auto
      ultimately show ?thesis using True room by auto
    next
      case False
      with a room t have m: "map_of (rooms s) rid = Some r"
        by (auto simp: leaveRoom_rooms Let_def split: if_splits)
      from entries_okD(2)[OF ok m a(2)] False have "p_ws (snd e) \<noteq> w" by auto
      with m a(2) show ?thesis by auto
    qed
  qed
  have "entries_ok ?s'"
  proof (rule entries_okI)
    fix rid r e
    assume a: "map_of (rooms ?s') rid = Some r" "e \<in> set (participants r)"
    from key[OF a] obtain r0 where r0: "map_of (rooms s) rid = Some r0" "e \<in> set (participants r0)"
      and ne: "p_ws (snd e) \<noteq> w" by auto
    from entries_okD[OF ok r0] ne
    show "truthy rid \<and> roomId (sock ?s' (p_ws (snd e))) = rid
        \<and> fst e = sessionId (sock ?s' (p_ws (snd e))) \<and> p_ws (snd e) < nextConn ?s'"
      by (simp add: sk nx)
  qed
  moreover have "absent ?s' w"
    unfolding absent_def using key by blast
  ultimately show ?thesis by simp
qed

lemma enter_entries:
  assumes ok: "entries_ok s" and ab: "absent s w" and t: "truthy rid" and lt: "w < nextConn s"
  shows "entries_ok (joinRoom_enter s w rid now)"
proof (rule entries_okI)
  fix rid' r e
  let ?s' = "joinRoom_enter s w rid now"
  assume a: "map_of (rooms ?s') rid' = Some r" "e \<in> set (participants r)"
  have sk: "sock ?s' w' = (if w' = w then (sock s w)\<lparr>roomId := rid\<rparr> else sock s w')" for w'
    by simp
  have nx: "nextConn ?s' = nextConn s" by simp
  let ?new = "(sessionId (sock s w), \<lparr>p_ws = w, p_deviceType = deviceType (sock s w), joinedAt = now\<rparr>)"
  consider (new) "rid' = rid" "e = ?new"
    | (old) r0 where "map_of (rooms s) rid' = Some r0" "e \<in> set (participants r0)"
  proof (cases "rid' = rid")
    case True
    with a have "e \<in> set (AList.update (sessionId (sock s w))
                    \<lparr>p_ws = w, p_deviceType = deviceType (sock s w), joinedAt = now\<rparr>
                    (participants (case map_of (rooms s) rid of
                        None \<Rightarrow> \<lparr>room_id = rid, created = now, participants = []\<rparr>
                      | Some r \<Rightarrow> r)))"
      by (auto simp: joinRoom_enter_def Let_def update_conv')
    with set_update_subset have "e = ?new \<or> e \<in> set (participants (case map_of (rooms s) rid of
                        None \<Rightarrow> \<lparr>room_id = rid, created = now, participants = []\<rparr>
                      | Some r \<Rightarrow> r))"
      by fastforce
    then show ?thesis
      using True new old by (cases "map_of (rooms s) rid") auto
  next
    case False
    with a have "map_of (rooms s) rid' = Some r"
      by (auto simp: joinRoom_enter_def Let_def update_conv')
    with a(2) old show ?thesis by blast
  qed
  then show "truthy rid' \<and> roomId (sock ?s' (p_ws (snd e))) = rid'
        \<and> fst e = sessionId (sock ?s' (p_ws (snd e))) \<and> p_ws (snd e) < nextConn ?s'"
  proof cases
    case new
    then show ?thesis using t lt by (simp add: nx)
  next
    case old
    from ab old have ne: "p_ws (snd e) \<noteq> w"
      unfolding absent_def by blast
    from entries_okD[OF ok old] ne show ?thesis
      by (simp add: nx)
  qed
qed

lemma stuck_entries:
  assumes ok: "entries_ok s" and ab: "absent s w" and t: "truthy rid" and lt: "w < nextConn s"
  shows "entries_ok (joinRoom_stuck s w rid now)"
proof (cases "map_of (rooms s) rid")
  case (Some r)
  then show ?thesis
    using enter_entries[OF assms] by (simp add: joinRoom_stuck_def)
next
  case None
  let ?s' = "s\<lparr>rooms := AList.update rid
               \<lparr>room_id = rid, created = now, participants = []\<rparr> (rooms s)\<rparr>"
  have "entries_ok ?s'"
  proof (rule entries_okI)
    fix rid' r e
    assume a: "map_of (rooms ?s') rid' = Some r" "e \<in> set (participants r)"
    then have "rid' \<noteq> rid"
      by (auto simp: update_conv')
    with a have "map_of (rooms s) rid' = Some r"
      by (simp add: update_conv')
    from entries_okD[OF ok this a(2)]
    show "truthy rid' \<and> roomId (sock ?s' (p_ws (snd e))) = rid'
        \<and> fst e = sessionId (sock ?s' (p_ws (snd e))) \<and> p_ws (snd e) < nextConn ?s'"
      by simp
  qed
  then show ?thesis
    using None by (simp add: joinRoom_stuck_def)
qed

lemma absent_when_falsy:
  "entries_ok s \<Longrightarrow> \<not> truthy (roomId (sock s w)) \<Longrightarrow> absent s w"
  unfolding absent_def entries_ok_def by metis

lemma after_entries:
  assumes ok: "entries_ok s" and ab: "absent s w" and t: "truthy rid" and lt: "w < nextConn s"
  shows "entries_ok (state_of (joinRoom_after fl s w rid now))"
proof -
  have "entries_ok (state_of (joinRoom_notify fl s' w rid now)) = entries_ok s'" for s'
    by (rule entries_ok_eq) simp_all
  then show ?thesis
    using enter_entries[OF assms] stuck_entries[OF assms]
    by (simp add: joinRoom_after_def)
qed

lemma joinRoom_entries:
  assumes ok: "entries_ok s" and t: "truthy rid" and lt: "w < nextConn s"
  shows "entries_ok (state_of (joinRoom fl s w rid now))"
proof (cases "truthy (roomId (sock s w))")
  case False
  from after_entries[OF ok absent_when_falsy[OF ok False] t lt] show ?thesis
    using False by (simp add: joinRoom_stages)
next
  case True
  show ?thesis
  proof (cases "leaveRoom fl s w")
    case (Thrown s0)
    then show ?thesis
      using True leaveRoom_entries[OF ok, of fl w] by (simp add: joinRoom_stages)
  next
    case (Done s0)
    then have ok0: "entries_ok s0" and ab0: "absent s0 w" and lt0: "w < nextConn s0"
      using True leaveRoom_entries[OF ok, of fl w] leaveRoom_proj(2)[of fl s w] lt by simp_all
    from after_entries[OF ok0 ab0 t lt0] show ?thesis
      using True Done by (simp add: joinRoom_stages)
  qed
qed

lemma entries_ok_simps [simp]:
  "entries_ok (send s w e) = entries_ok s"
  "entries_ok (sendError s w m now) = entries_ok s"
  "entries_ok (broadcastToRoom s r e ex) = entries_ok s"
  "entries_ok (state_of (handlePoseData fl s w p now)) = entries_ok s"
  "entries_ok (registerDevice s w c d) = entries_ok s"
  "entries_ok (handleSyncRequest s w t b now) = entries_ok s"
  "entries_ok (sendRoomList s w) = entries_ok s"
  "entries_ok (sendStats s w) = entries_ok s"
  "entries_ok (state_of (unknownType s w m' now)) = entries_ok s"
  "entries_ok (s\<lparr>messageCount := n\<rparr>) = entries_ok s"
  "entries_ok (s\<lparr>connections := cs\<rparr>) = entries_ok s"
  "entries_ok (s\<lparr>poseDataLimits := ls\<rparr>) = entries_ok s"
  "entries_ok (s\<lparr>totalConnections := n\<rparr>) = entries_ok s"
  "entries_ok (s\<lparr>currentConnections := i\<rparr>) = entries_ok s"
  "entries_ok (s\<lparr>crashed := c'\<rparr>) = entries_ok s"
  "entries_ok (s\<lparr>sock := (sock s)(w := (sock s w)\<lparr>readyState := rs\<rparr>)\<rparr>) = entries_ok s"
  by (rule entries_ok_eq;
      simp add: sendRoomList_def sendStats_def registerDevice_def Let_def)+

lemma handleMessage_entries:
  assumes "entries_ok s" "w < nextConn s" "truthy_codes (Message w (Json m) rnd now)"
  shows "entries_ok (state_of (handleMessage fl s w m rnd now))"
proof (cases m)
  case (JoinRoomMsg r)
  then show ?thesis
    using assms by (auto simp: handleMessage_def joinRoom_entries)
next
  case CreateRoomMsg
  have "fl = Local \<Longrightarrow> entries_ok (state_of (joinRoom fl s w (JStr rnd) now))"
    using assms CreateRoomMsg by (simp add: joinRoom_entries)
  then show ?thesis
    using CreateRoomMsg assms(1)
    by (cases "joinRoom fl s w (JStr rnd) now") (auto simp: handleMessage_def)
next
  case LeaveRoomMsg
  then show ?thesis
    using leaveRoom_entries[OF assms(1), of fl w] by (simp add: handleMessage_def)
qed (use assms(1) in \<open>auto simp: handleMessage_def\<close>)

lemma onMessage_entries:
  assumes "entries_ok s" "w < nextConn s" "truthy_codes (Message w d rnd now)"
  shows "entries_ok (onMessage fl s w d rnd now)"
proof (cases d)
  case (Json m)
  have "entries_ok (s\<lparr>messageCount := messageCount s + 1\<rparr>)"
    "w < nextConn (s\<lparr>messageCount := messageCount s + 1\<rparr>)"
    using assms by simp_all
  from handleMessage_entries[OF this, of m rnd now fl] show ?thesis
    using Json assms(3)
    by (cases "handleMessage fl (s\<lparr>messageCount := messageCount s + 1\<rparr>) w m rnd now")
       (simp_all add: onMessage_def)
qed (use assms(1) in \<open>simp_all add: onMessage_def\<close>)

lemma cleanup_entries: "entries_ok s \<Longrightarrow> entries_ok (state_of (cleanup fl s w))"
proof -
  assume "entries_ok s"
  then have "entries_ok (s\<lparr>connections := AList.delete (sessionId (sock s w)) (connections s)\<rparr>)"
    by simp
  from leaveRoom_entries[OF this, of fl w] show ?thesis
    by (cases "leaveRoom fl (s\<lparr>connections := AList.delete (sessionId (sock s w)) (connections s)\<rparr>) w")
       (auto simp: cleanup_def)
qed

lemma uncaught_entries [simp]: "entries_ok (uncaught r) = entries_ok (state_of r)"
  by (cases r) (simp_all add: uncaught_def)

lemma onClose_entries: "entries_ok s \<Longrightarrow> entries_ok (onClose fl s w)"
proof -
  assume a: "entries_ok s"
  define s2 where "s2 = (if fl = Local
      then s\<lparr>sock := (sock s)(w := (sock s w)\<lparr>readyState := CLOSED\<rparr>),
             currentConnections := currentConnections s - 1\<rparr>
      else s\<lparr>sock := (sock s)(w := (sock s w)\<lparr>readyState := CLOSED\<rparr>)\<rparr>)"
  have "entries_ok s2 = entries_ok s"
    by (rule entries_ok_eq) (simp_all add: s2_def)
  then have "entries_ok (state_of (cleanup fl s2 w))"
    using a by (simp add: cleanup_entries)
  then show ?thesis
    by (cases fl) (simp_all add: onClose_def Let_def s2_def)
qed

lemma fresh_socket_entries:
  assumes "entries_ok s"
  shows "entries_ok (s\<lparr>sock := (sock s)(nextConn s := x), nextConn := nextConn s + 1,
                         connections := cs\<rparr>)"
proof (rule entries_okI)
  fix rid r e
  assume "map_of (rooms (s\<lparr>sock := (sock s)(nextConn s := x), nextConn := nextConn s + 1,
                         connections := cs\<rparr>)) rid = Some r" "e \<in> set (participants r)"
  then have a: "map_of (rooms s) rid = Some r" "e \<in> set (participants r)"
    by simp_all
  from entries_okD[OF assms a]
  show "truthy rid \<and>
       roomId (sock (s\<lparr>sock := (sock s)(nextConn s := x), nextConn := nextConn s + 1,
                         connections := cs\<rparr>) (p_ws (snd e))) = rid \<and>
       fst e = sessionId (sock (s\<lparr>sock := (sock s)(nextConn s := x), nextConn := nextConn s + 1,
                         connections := cs\<rparr>) (p_ws (snd e))) \<and>
       p_ws (snd e) < nextConn (s\<lparr>sock := (sock s)(nextConn s := x), nextConn := nextConn s + 1,
                         connections := cs\<rparr>)"
    by auto
qed

lemma onConnection_entries:
  assumes "entries_ok s"
  shows "entries_ok (onConnection fl s qs qd qr g g' now)"
proof -
  define sid where "sid = (case qs of None \<Rightarrow> g | Some q \<Rightarrow> if q = [] then g else q)"
  define dev where
    "dev = (case qd of None \<Rightarrow> ''unknown'' | Some d \<Rightarrow> if d = [] then ''unknown'' else d)"
  define rid where "rid = (case qr of None \<Rightarrow> JNull | Some r \<Rightarrow> JStr r)"
  define x where "x = \<lparr>sessionId = sid, deviceType = dev, roomId = rid, isAlive = True,
      connectedAt = now, readyState = OPEN, capabilities = None, deviceInfo = None\<rparr>"
  define s1 where "s1 = s\<lparr>sock := (sock s)(nextConn s := x), nextConn := nextConn s + 1,
      connections := AList.update sid (nextConn s) (connections s)\<rparr>"
  define s2 where "s2 = (if fl = Local
                then s1\<lparr>totalConnections := totalConnections s1 + 1,
                        currentConnections := currentConnections s1 + 1\<rparr>
                else s1)"
  have "entries_ok s1"
    unfolding s1_def by (rule fresh_socket_entries[OF assms])
  then have s2: "entries_ok s2" and lt: "nextConn s < nextConn s2"
    by (auto simp: s2_def s1_def)
  have j: "truthy rid \<Longrightarrow> entries_ok (state_of (joinRoom fl s2 (nextConn s) rid now))"
    by (rule joinRoom_entries[OF s2 _ lt])
  have "onConnection fl s qs qd qr g g' now =
          uncaught (case (if truthy rid then joinRoom fl s2 (nextConn s) rid now else Done s2) of
             Thrown s3 \<Rightarrow> Thrown s3
           | Done s3 \<Rightarrow> Done (send s3 (nextConn s) (Connected sid dev now
                           (if fl = Cloud then g' else ''1.0.0-dev''))))"
    unfolding onConnection_unfold sid_def dev_def rid_def x_def s1_def s2_def Let_def ..
  then show ?thesis
    using s2 j by (cases "joinRoom fl s2 (nextConn s) rid now") auto
qed

lemma step_entries:
  "entries_ok s \<Longrightarrow> truthy_codes ev \<Longrightarrow> entries_ok (step fl s ev)"
  by (cases ev)
     (auto simp: step_def onError_def onConnection_entries onMessage_entries onClose_entries
        cleanup_entries)

lemma run_entries:
  "entries_ok s \<Longrightarrow> \<forall>ev\<in>set evs. truthy_codes ev \<Longrightarrow> entries_ok (run fl s evs)"
  by (induction evs arbitrary: s) (simp_all add: step_entries)

lemma init_entries: "entries_ok init"
  by (simp add: entries_ok_def init_def)

lemma one_room_for_truthy_codes:
  assumes "\<forall>ev\<in>set evs. truthy_codes ev"
    and "member (run fl init evs) w r1" and "member (run fl init evs) w r2"
  shows "r1 = r2 \<and> r1 = roomId (sock (run fl init evs) w)"
proof -
  have ok: "entries_ok (run fl init evs)"
    by (rule run_entries[OF init_entries assms(1)])
  have "r = roomId (sock (run fl init evs) w)" if "member (run fl init evs) w r" for r
  proof -
    from that obtain room where room: "map_of (rooms (run fl init evs)) r = Some room"
      by (cases "map_of (rooms (run fl init evs)) r") (simp_all add: member_def participantsOf_def)
    with that obtain e where e: "e \<in> set (participants room)" "p_ws (snd e) = w"
      by (auto simp: member_def participantsOf_def list_ex_iff)
    from entries_okD(2)[OF ok room e(1)] e(2) show ?thesis by simp
  qed
  with assms(2,3) show ?thesis by metis
qed

text \<open>
  Claim C4, at the input where the code departs from it. \<^verbatim>\<open>joinRoom\<close> decides whether the
  session is in a room by the truth value of \<^verbatim>\<open>ws.roomId\<close>, and the empty string and
  \<^verbatim>\<open>undefined\<close> count as false. A session that has joined the room with the empty code (or
  sent a \<^verbatim>\<open>join_room\<close> without a room id, which puts it into the room keyed \<^verbatim>\<open>undefined\<close>)
  and then joins \<open>B\<close> is therefore not taken out of the first room: it is a participant
  of both, while \<^verbatim>\<open>ws.roomId\<close> names \<open>B\<close> only.
\<close>

theorem empty_room_code_double_membership:
  "member (run Cloud init scenario_empty_code) 0 (JStr [])
   \<and> member (run Cloud init scenario_empty_code) 0 (JStr ''B'')
   \<and> roomId (sock (run Cloud init scenario_empty_code) 0) = JStr ''B''
   \<and> member (run Cloud init scenario_missing_code) 0 JUndefined
   \<and> member (run Cloud init scenario_missing_code) 0 (JStr ''B'')
   \<and> member (run Local init scenario_empty_code) 0 (JStr [])
   \<and> member (run Local init scenario_empty_code) 0 (JStr ''B'')"
  by code_simp
section \<open>Pairing\<close>

lemma pairingSent_send: "\<not> isPairing e \<Longrightarrow> pairingSent (send s w e) = pairingSent s"
  by (simp add: pairingSent_def send_def)

lemma pairingSent_broadcast:
  "\<not> isPairing e \<Longrightarrow> pairingSent (broadcastToRoom s r e ex) = pairingSent s"
  by (cases "map_of (rooms s) r")
     (simp_all add: broadcast_absent broadcast_present pairingSent_def filter_empty_conv)

lemma pairingSent_upd [simp]:
  "pairingSent (s\<lparr>rooms := r\<rparr>) = pairingSent s"
  "pairingSent (s\<lparr>sock := h\<rparr>) = pairingSent s"
  by (simp_all add: pairingSent_def)

lemma pairingSent_leaveRoom: "pairingSent (state_of (leaveRoom fl s w)) = pairingSent s"
  by (auto simp: leaveRoom_def Let_def pairingSent_broadcast split: option.splits)

lemma enter_present: "map_of (rooms (joinRoom_enter s w rid now)) rid \<noteq> None"
  by (simp add: joinRoom_enter_def Let_def update_conv')

lemma pairingSent_enter: "pairingSent (joinRoom_enter s w rid now) = pairingSent s"
  by (simp add: pairingSent_def)

lemma pairingSent_stuck: "pairingSent (joinRoom_stuck s w rid now) = pairingSent s"
  by (simp add: pairingSent_def)

lemma pairingSent_told: "pairingSent (joinRoom_told s w rid now) = pairingSent s"
  by (simp add: joinRoom_told_def Let_def pairingSent_broadcast pairingSent_send)

lemma pairingSent_notify:
  assumes "map_of (rooms s) rid = Some room"
  shows "pairingSent (state_of (joinRoom_notify fl s w rid now)) =
     pairingSent s @
       (if fl = Local \<and> paired s rid
        then map (\<lambda>e. (p_ws (snd e), PairingSuccess (map (\<lambda>p. fst (snd p)) (plistOf s rid))))
               (filter (\<lambda>e. readyState (sock s (p_ws (snd e))) = OPEN) (participantsOf s rid))
        else [])"
proof -
  define s4 where "s4 = joinRoom_told s w rid now"
  have p4: "pairingSent s4 = pairingSent s"
    by (simp add: s4_def pairingSent_told)
  have r4: "map_of (rooms s4) rid = Some room" "sock s4 = sock s"
    using assms by (simp_all add: s4_def)
  have n: "state_of (joinRoom_notify fl s w rid now) =
            (if fl = Local \<and> paired s rid
             then broadcastToRoom s4 rid (PairingSuccess (map (\<lambda>p. fst (snd p)) (plistOf s rid))) None
             else s4)"
    by (simp add: joinRoom_notify_def s4_def paired_def)
  have po: "participantsOf s rid = participants room"
    using assms by (simp add: participantsOf_def)
  show ?thesis
    unfolding n using p4
    by (simp add: pairingSent_def broadcast_present[OF r4(1)] r4(2) po)
qed

lemma pairingSent_after:
  "pairingSent (state_of (joinRoom_after fl s w rid now)) =
     pairingSent s @
       (if fl = Local \<and> printable rid \<and> paired (state_of (joinRoom_after fl s w rid now)) rid
        then map (\<lambda>e. (p_ws (snd e),
                    PairingSuccess (map (\<lambda>p. fst (snd p))
                      (plistOf (state_of (joinRoom_after fl s w rid now)) rid))))
               (filter (\<lambda>e. readyState (sock (state_of (joinRoom_after fl s w rid now))
                                (p_ws (snd e))) = OPEN)
                  (participantsOf (state_of (joinRoom_after fl s w rid now)) rid))
        else [])"
proof (cases "fl = Local \<and> \<not> printable rid")
  case True
  then show ?thesis
    by (simp add: joinRoom_after_def pairingSent_stuck)
next
  case False
  define s2 where "s2 = joinRoom_enter s w rid now"
  have a: "joinRoom_after fl s w rid now = joinRoom_notify fl s2 w rid now"
    using False by (auto simp: joinRoom_after_def s2_def)
  obtain room where room: "map_of (rooms s2) rid = Some room"
    using enter_present[of s w rid now] by (auto simp: s2_def)
  have p2: "pairingSent s2 = pairingSent s"
    by (simp add: s2_def pairingSent_enter)
  have same: "plistOf (state_of (joinRoom_notify fl' s2 w rid now)) rid = plistOf s2 rid"
    "participantsOf (state_of (joinRoom_notify fl' s2 w rid now)) rid = participantsOf s2 rid"
    "paired (state_of (joinRoom_notify fl' s2 w rid now)) rid = paired s2 rid"
    "sock (state_of (joinRoom_notify fl' s2 w rid now)) = sock s2" for fl'
    by (simp_all add: plistOf_def participantsOf_def paired_def)
  show ?thesis
    unfolding a using False by (auto simp: same pairingSent_notify[OF room] p2)
qed

lemma pairingSent_join_stage:
  "(\<exists>s0. joinRoom fl s w rid now = Thrown s0 \<and> pairingSent s0 = pairingSent s)
   \<or> (\<exists>s0. joinRoom fl s w rid now = joinRoom_after fl s0 w rid now
            \<and> pairingSent s0 = pairingSent s)"
  using pairingSent_leaveRoom[of fl s w]
  by (cases "leaveRoom fl s w") (auto simp: joinRoom_stages)

lemma pairingSent_join_cloud:
  "pairingSent (state_of (joinRoom Cloud s w rid now)) = pairingSent s"
proof -
  from pairingSent_join_stage[of Cloud s w rid now] consider
      s0 where "joinRoom Cloud s w rid now = Thrown s0" "pairingSent s0 = pairingSent s"
    | s0 where "joinRoom Cloud s w rid now = joinRoom_after Cloud s0 w rid now"
        "pairingSent s0 = pairingSent s"
    by blast
  then show ?thesis
  proof cases
    case 1
    then show ?thesis by simp
  next
    case 2
    show ?thesis
      unfolding 2(1) using pairingSent_after[of Cloud s0 w rid now] 2(2) by simp
  qed
qed

text \<open>server.js never sends \<^verbatim>\<open>pairing_success\<close>, whatever happens to it.\<close>

lemma pairingSent_fields [simp]:
  "pairingSent (s\<lparr>messageCount := n\<rparr>) = pairingSent s"
  "pairingSent (s\<lparr>connections := cs\<rparr>) = pairingSent s"
  "pairingSent (s\<lparr>poseDataLimits := ls\<rparr>) = pairingSent s"
  "pairingSent (s\<lparr>nextConn := k\<rparr>) = pairingSent s"
  "pairingSent (s\<lparr>crashed := c\<rparr>) = pairingSent s"
  by (simp_all add: pairingSent_def)

lemma pairingSent_handle_cloud:
  "pairingSent (state_of (handleMessage Cloud s w m rnd now)) = pairingSent s"
proof (cases m)
  case (PoseDataMsg p)
  then show ?thesis
    by (simp add: handleMessage_def handlePoseData_def Let_def pairingSent_broadcast
          split: ts_view.splits)
next
  case (SyncRequestMsg t b)
  then show ?thesis
    by (simp add: handleMessage_def handleSyncRequest_def sendError_def pairingSent_send
          split: option.splits jsval.splits)
qed (simp_all add: handleMessage_def pairingSent_join_cloud pairingSent_leaveRoom
       unknownType_def sendError_def registerDevice_def sendRoomList_def Let_def
       pairingSent_send split: option.splits)

lemma pairingSent_onMessage_cloud: "pairingSent (onMessage Cloud s w d rnd now) = pairingSent s"
proof (cases d)
  case (Json m)
  from pairingSent_handle_cloud[of "s\<lparr>messageCount := messageCount s + 1\<rparr>" w m rnd now]
  show ?thesis
    using Json
    by (cases "handleMessage Cloud (s\<lparr>messageCount := messageCount s + 1\<rparr>) w m rnd now")
       (simp_all add: onMessage_def sendError_def pairingSent_send)
qed (simp_all add: onMessage_def sendError_def pairingSent_send)

lemma pairingSent_cleanup_cloud: "pairingSent (uncaught (cleanup Cloud s w)) = pairingSent s"
proof -
  let ?s1 = "s\<lparr>connections := AList.delete (sessionId (sock s w)) (connections s)\<rparr>"
  from pairingSent_leaveRoom[of Cloud ?s1 w] show ?thesis
    by (cases "leaveRoom Cloud ?s1 w") (simp_all add: cleanup_def uncaught_def)
qed

lemma pairingSent_onConnection_cloud:
  "pairingSent (onConnection Cloud s qs qd qr g g' now) = pairingSent s"
proof -
  define rid where "rid = (case qr of None \<Rightarrow> JNull | Some r \<Rightarrow> JStr r)"
  define s2 where "s2 = s\<lparr>sock := (sock s)(nextConn s :=
      \<lparr>sessionId = (case qs of None \<Rightarrow> g | Some q \<Rightarrow> if q = [] then g else q),
       deviceType = (case qd of None \<Rightarrow> ''unknown'' | Some d \<Rightarrow> if d = [] then ''unknown'' else d),
       roomId = rid, isAlive = True, connectedAt = now, readyState = OPEN,
       capabilities = None, deviceInfo = None\<rparr>), nextConn := nextConn s + 1,
      connections := AList.update (case qs of None \<Rightarrow> g | Some q \<Rightarrow> if q = [] then g else q)
         (nextConn s) (connections s)\<rparr>"
  have p2: "pairingSent s2 = pairingSent s"
    by (simp add: s2_def)
  have "onConnection Cloud s qs qd qr g g' now =
          uncaught (case (if truthy rid then joinRoom Cloud s2 (nextConn s) rid now else Done s2) of
             Thrown s3 \<Rightarrow> Thrown s3
           | Done s3 \<Rightarrow> Done (send s3 (nextConn s)
               (Connected (case qs of None \<Rightarrow> g | Some q \<Rightarrow> if q = [] then g else q)
                  (case qd of None \<Rightarrow> ''unknown'' | Some d \<Rightarrow> if d = [] then ''unknown'' else d)
                  now g')))"
    unfolding onConnection_unfold rid_def s2_def Let_def by simp
  then show ?thesis
    using p2 pairingSent_join_cloud[of s2 "nextConn s" rid now]
    by (cases "joinRoom Cloud s2 (nextConn s) rid now")
       (auto simp: uncaught_def pairingSent_send)
qed

lemma pairingSent_step_cloud: "pairingSent (step Cloud s ev) = pairingSent s"
  by (cases ev)
     (simp_all add: step_def pairingSent_onConnection_cloud pairingSent_onMessage_cloud
        onClose_def onError_def pairingSent_cleanup_cloud)

lemma server_js_never_pairs: "pairingSent (run Cloud init evs) = []"
proof -
  have "pairingSent (run Cloud s evs) = pairingSent s" for s
    by (induction evs arbitrary: s) (simp_all add: pairingSent_step_cloud)
  then show ?thesis
    by (simp add: pairingSent_def init_def)
qed

text \<open>
  Claim C2, amended. In local-server.js every successful join (one that returns rather
  than throws) is followed by one \<^verbatim>\<open>pairing_success\<close> broadcast to all open participants of
  the room exactly when the participants after the join include a \<open>mobile\<close> and a \<open>vr\<close>
  session; whether the room held such a pair before the join plays no part, so each further
  join into a paired room emits it again. A join of server.js emits no
  \<^verbatim>\<open>pairing_success\<close> (nothing in server.js does), and no leave does.
\<close>

theorem pairing_on_every_paired_join:
  "pairingSent (state_of (joinRoom Local s w rid now)) =
     pairingSent s @
       (if \<not> threw (joinRoom Local s w rid now) \<and> paired (state_of (joinRoom Local s w rid now)) rid
        then map (\<lambda>e. (p_ws (snd e),
                    PairingSuccess (map (\<lambda>p. fst (snd p))
                      (plistOf (state_of (joinRoom Local s w rid now)) rid))))
               (filter (\<lambda>e. readyState (sock (state_of (joinRoom Local s w rid now))
                                (p_ws (snd e))) = OPEN)
                  (participantsOf (state_of (joinRoom Local s w rid now)) rid))
        else [])
   \<and> pairingSent (state_of (joinRoom Cloud s w rid now)) = pairingSent s
   \<and> pairingSent (state_of (leaveRoom fl s w)) = pairingSent s"
proof -
  have l: "pairingSent (state_of (joinRoom Local s w rid now)) =
     pairingSent s @
       (if \<not> threw (joinRoom Local s w rid now) \<and> paired (state_of (joinRoom Local s w rid now)) rid
        then map (\<lambda>e. (p_ws (snd e),
                    PairingSuccess (map (\<lambda>p. fst (snd p))
                      (plistOf (state_of (joinRoom Local s w rid now)) rid))))
               (filter (\<lambda>e. readyState (sock (state_of (joinRoom Local s w rid now))
                                (p_ws (snd e))) = OPEN)
                  (participantsOf (state_of (joinRoom Local s w rid now)) rid))
        else [])"
  proof -
    from pairingSent_join_stage[of Local s w rid now] consider
        s0 where "joinRoom Local s w rid now = Thrown s0" "pairingSent s0 = pairingSent s"
      | s0 where "joinRoom Local s w rid now = joinRoom_after Local s0 w rid now"
          "pairingSent s0 = pairingSent s"
      by blast
    then show ?thesis
    proof cases
      case 1
      then show ?thesis by simp
    next
      case 2
      show ?thesis
        unfolding 2(1) using pairingSent_after[of Local s0 w rid now] 2(2)
        by (simp add: after_threw)
    qed
  qed
  from l pairingSent_join_cloud[of s w rid now] pairingSent_leaveRoom[of fl s w] show ?thesis
    by blast
qed

theorem pairing_on_every_paired_join_witness:
  "pairingSent (state_of (joinRoom Local (run Local init scenario_paired) 1 (JStr ''R'') 8)) =
     pairingSent (run Local init scenario_paired) @
       [(0, PairingSuccess [''mobile'', ''vr'']), (1, PairingSuccess [''mobile'', ''vr''])]
   \<and> pairingSent (state_of (joinRoom Cloud (run Local init scenario_paired) 1 (JStr ''R'') 8)) =
       pairingSent (run Local init scenario_paired)
   \<and> pairingSent (state_of (leaveRoom Local (run Local init scenario_paired) 1)) =
       pairingSent (run Local init scenario_paired)"
proof -
  let ?s = "run Local init scenario_paired"
  let ?r = "joinRoom Local ?s 1 (JStr ''R'') 8"
  have e: "(if \<not> threw ?r \<and> paired (state_of ?r) (JStr ''R'')
        then map (\<lambda>e. (p_ws (snd e),
                   PairingSuccess (map (\<lambda>p. fst (snd p)) (plistOf (state_of ?r) (JStr ''R'')))))
               (filter (\<lambda>e. readyState (sock (state_of ?r) (p_ws (snd e))) = OPEN)
                  (participantsOf (state_of ?r) (JStr ''R'')))
        else []) =
       [(0, PairingSuccess [''mobile'', ''vr'']), (1, PairingSuccess [''mobile'', ''vr''])]"
    by code_simp
  from pairing_on_every_paired_join[of ?s 1 "JStr ''R''" 8 Local] e
  show ?thesis by simp
qed

text \<open>
  The room already holds a mobile and a vr session when the third client joins, and the
  development server broadcasts \<^verbatim>\<open>pairing_success\<close> once more, to all three; the
  deployment server has sent none at all.
\<close>

theorem pairing_refires_counterexample:
  "paired (run Local init scenario_paired) (JStr ''R'')
   \<and> pairingSent (run Local init scenario_three) =
       pairingSent (run Local init scenario_paired) @
         [(0, PairingSuccess [''mobile'', ''vr'', ''mobile'']),
          (1, PairingSuccess [''mobile'', ''vr'', ''mobile'']),
          (2, PairingSuccess [''mobile'', ''vr'', ''mobile''])]
   \<and> paired (run Cloud init scenario_paired) (JStr ''R'')
   \<and> pairingSent (run Cloud init scenario_three) = []"
  by code_simp
section \<open>Rate limit on pose data\<close>

lemma poseDeliveries_cong:
  "rooms s' = rooms s \<Longrightarrow> sock s' = sock s \<Longrightarrow> poseDeliveries fl s' w f = poseDeliveries fl s w f"
  by (cases "timestamp (fst f)") (simp_all add: poseDeliveries_def participantsOf_def)

lemma broadcast_pose:
  assumes "truthy (roomId (sock s w))" "rooms s' = rooms s" "sock s' = sock s"
    "timestamp m = TsValue b n"
  shows "sent (broadcastToRoom s' (roomId (sock s w)) (poseEnvelope fl (sock s w) m t b n)
            (Some (sessionId (sock s w)))) = sent s' @ poseDeliveries fl s w (m, t)"
  using assms
  by (cases "map_of (rooms s) (roomId (sock s w))")
     (simp_all add: broadcast_absent broadcast_present poseDeliveries_def participantsOf_def)

lemma pose_proj [simp]:
  "rooms (onMessage fl s w (Json (PoseDataMsg m)) rnd t) = rooms s"
  "sock (onMessage fl s w (Json (PoseDataMsg m)) rnd t) = sock s"
proof -
  let ?r = "handlePoseData fl (s\<lparr>messageCount := messageCount s + 1\<rparr>) w m t"
  have "rooms (state_of ?r) = rooms s" "sock (state_of ?r) = sock s"
    by simp_all
  then show "rooms (onMessage fl s w (Json (PoseDataMsg m)) rnd t) = rooms s"
    "sock (onMessage fl s w (Json (PoseDataMsg m)) rnd t) = sock s"
    by (cases ?r; simp add: onMessage_def handleMessage_def)+
qed

lemma pose_local_sent:
  "sent (onMessage Local s w (Json (PoseDataMsg m)) rnd t) =
     sent s @ poseDeliveries Local s w (m, t)"
proof (cases "timestamp m")
  case TsThrows
  then show ?thesis
    by (simp add: onMessage_def handleMessage_def handlePoseData_def poseDeliveries_def
          sendError_def send_def)
next
  case (TsValue b n)
  define s1 where "s1 = s\<lparr>messageCount := messageCount s + 1, messagesSent := messagesSent s + 1\<rparr>"
  have e: "poseEnvelope Local (sock s w) m t b n =
             PoseLocal m t (if b then map_option (\<lambda>k. t - k) n else Some 0)"
    by (simp add: poseEnvelope_def)
  have h: "onMessage Local s w (Json (PoseDataMsg m)) rnd t =
             (if truthy (roomId (sock s w))
              then broadcastToRoom s1 (roomId (sock s w)) (poseEnvelope Local (sock s w) m t b n)
                     (Some (sessionId (sock s w)))
              else s1)"
    using TsValue by (simp add: onMessage_def handleMessage_def handlePoseData_def Let_def s1_def e)
  show ?thesis
  proof (cases "truthy (roomId (sock s w))")
    case True
    from broadcast_pose[OF True _ _ TsValue, of s1 Local t] show ?thesis
      using True by (simp add: h s1_def)
  next
    case False
    then show ?thesis
      using TsValue by (simp add: h s1_def poseDeliveries_def)
  qed
qed

lemma pose_cloud_sent:
  "sent (onMessage Cloud s w (Json (PoseDataMsg m)) rnd t) =
     sent s @ (if count (nextLimit s w t) > 30 then [] else poseDeliveries Cloud s w (m, t))"
proof -
  define s0 where "s0 = s\<lparr>messageCount := messageCount s + 1\<rparr>"
  define s1 where "s1 = s\<lparr>messageCount := messageCount s + 1,
      poseDataLimits := AList.update (sessionId (sock s w)) (nextLimit s w t) (poseDataLimits s)\<rparr>"
  have om: "onMessage Cloud s w (Json (PoseDataMsg m)) rnd t =
              (case handlePoseData Cloud s0 w m t of
                 Done s' \<Rightarrow> s'
               | Thrown s' \<Rightarrow> sendError s' w ''Invalid message format'' t)"
    by (simp add: onMessage_def handleMessage_def s0_def)
  have h: "handlePoseData Cloud s0 w m t =
             (if count (nextLimit s w t) > 30 then Done s1
              else if truthy (roomId (sock s w))
              then (case timestamp m of
                      TsThrows \<Rightarrow> Thrown s1
                    | TsValue b n \<Rightarrow>
                        Done (broadcastToRoom s1 (roomId (sock s w))
                                (poseEnvelope Cloud (sock s w) m t b n)
                                (Some (sessionId (sock s w)))))
              else Done s1)"
    by (cases "timestamp m")
       (simp_all add: handlePoseData_def Let_def nextLimit_def s0_def s1_def poseEnvelope_def)
  have p: "rooms s1 = rooms s" "sock s1 = sock s" "sent s1 = sent s"
    by (simp_all add: s1_def)
  show ?thesis
  proof (cases "count (nextLimit s w t) > 30")
    case True
    then show ?thesis
      by (simp add: om h p)
  next
    case False
    note open_window = this
    show ?thesis
    proof (cases "truthy (roomId (sock s w))")
      case False
      then show ?thesis
        using open_window
        by (cases "timestamp m") (simp_all add: om h p poseDeliveries_def)
    next
      case True
      show ?thesis
      proof (cases "timestamp m")
        case TsThrows
        then show ?thesis
          using open_window True
          by (simp add: om h p poseDeliveries_def sendError_def send_def)
      next
        case (TsValue b n)
        from broadcast_pose[OF True p(1) p(2) TsValue, of Cloud t] show ?thesis
          using open_window True TsValue by (simp add: om h p)
      qed
    qed
  qed
qed

lemma pose_cloud_limit:
  "map_of (poseDataLimits (onMessage Cloud s w (Json (PoseDataMsg m)) rnd t)) (sessionId (sock s w)) =
     Some (nextLimit s w t)"
  by (cases "timestamp m")
     (simp_all add: onMessage_def handleMessage_def handlePoseData_def Let_def nextLimit_def
        update_conv')

lemma burst_local:
  "sent (poseBurst Local s w fs) = sent s @ concat (map (poseDeliveries Local s w) fs)"
proof (induction fs arbitrary: s)
  case Nil
  show ?case by simp
next
  case (Cons f fs)
  have "poseDeliveries Local (onMessage Local s w (Json (PoseDataMsg (fst f))) [] (snd f)) w =
        poseDeliveries Local s w"
    by (rule ext) (rule poseDeliveries_cong; simp)
  then show ?case
    by (simp add: Cons.IH pose_local_sent)
qed

lemma burst_in_window:
  assumes "map_of (poseDataLimits s) (sessionId (sock s w)) = Some l"
    and "\<forall>f\<in>set fs. snd f \<le> resetTime l"
  shows "sent (poseBurst Cloud s w fs) =
           sent s @ concat (map (poseDeliveries Cloud s w) (take (30 - count l) fs))"
  using assms
proof (induction fs arbitrary: s l)
  case Nil
  show ?case by simp
next
  case (Cons f fs)
  let ?s' = "onMessage Cloud s w (Json (PoseDataMsg (fst f))) [] (snd f)"
  have le: "snd f \<le> resetTime l"
    using Cons.prems(2) by simp
  have nl: "nextLimit s w (snd f) = l\<lparr>count := count l + 1\<rparr>"
    using Cons.prems(1) le by (simp add: nextLimit_def)
  have lim: "map_of (poseDataLimits ?s') (sessionId (sock ?s' w)) = Some (l\<lparr>count := count l + 1\<rparr>)"
    using pose_cloud_limit[of s w "fst f" "[]" "snd f"] by (simp add: nl)
  have rest: "\<forall>g\<in>set fs. snd g \<le> resetTime (l\<lparr>count := count l + 1\<rparr>)"
    using Cons.prems(2) by simp
  have same: "poseDeliveries Cloud ?s' w = poseDeliveries Cloud s w"
    by (rule ext) (rule poseDeliveries_cong; simp)
  have ih: "sent (poseBurst Cloud ?s' w fs) =
              sent ?s' @ concat (map (poseDeliveries Cloud s w) (take (30 - (count l + 1)) fs))"
    using Cons.IH[OF lim rest] by (simp add: same)
  show ?case
  proof (cases "count l < 30")
    case True
    then obtain k where k: "30 - count l = Suc k" "30 - (count l + 1) = k" "29 - count l = k"
      by (cases "30 - count l") auto
    show ?thesis
      using True by (simp add: ih pose_cloud_sent nl k)
  next
    case False
    then show ?thesis
      by (simp add: ih pose_cloud_sent nl)
  qed
qed

text \<open>
  Claim C3, amended. In server.js a session's window is opened by the first
  \<^verbatim>\<open>pose_data\<close> frame that finds no limiter entry or arrives after the deadline of the last
  one, and lasts until 1000 ms after that frame. Of the frames of a window exactly the first
  30 are admitted; every later frame of the window adds nothing to the log of sent frames,
  so nobody, the sender included, gets a reply. An admitted frame is broadcast to the open
  participants of the sender's room other than the sender; when the sender is in a room and
  the frame's time stamp is an object that cannot be converted to a number, the subtraction
  throws, nothing is broadcast and the sender gets the \<^verbatim>\<open>error\<close> envelope
  "Invalid message format". local-server.js has no limiter: it treats every frame as
  server.js treats an admitted one, except that the subtraction comes first, also for a
  sender without a room.
\<close>

theorem pose_rate_window:
  assumes "case map_of (poseDataLimits s) (sessionId (sock s w)) of
             None \<Rightarrow> True | Some l \<Rightarrow> resetTime l < t0"
    and "\<forall>f\<in>set fs. snd f \<le> t0 + 1000"
  shows "sent (poseBurst Cloud s w ((m0, t0) # fs)) =
           sent s @ concat (map (poseDeliveries Cloud s w) (take 30 ((m0, t0) # fs)))
         \<and> sent (poseBurst Local s w fs') =
           sent s @ concat (map (poseDeliveries Local s w) fs')"
proof -
  let ?s' = "onMessage Cloud s w (Json (PoseDataMsg m0)) [] t0"
  let ?l = "\<lparr>count = 1, resetTime = t0 + 1000\<rparr>"
  have nl: "nextLimit s w t0 = ?l"
    using assms(1) by (simp add: nextLimit_def split: option.splits)
  have lim: "map_of (poseDataLimits ?s') (sessionId (sock ?s' w)) = Some ?l"
    using pose_cloud_limit[of s w m0 "[]" t0] by (simp add: nl)
  have rest: "\<forall>g\<in>set fs. snd g \<le> resetTime ?l"
    using assms(2) by simp
  have same: "poseDeliveries Cloud ?s' w = poseDeliveries Cloud s w"
    by (rule ext) (rule poseDeliveries_cong; simp)
  have "sent (poseBurst Cloud ?s' w fs) =
          sent ?s' @ concat (map (poseDeliveries Cloud s w) (take 29 fs))"
    using burst_in_window[OF lim rest] by (simp add: same)
  moreover have "take 30 ((m0, t0) # fs) = (m0, t0) # take 29 fs"
    by (simp add: take_Cons')
  ultimately have "sent (poseBurst Cloud s w ((m0, t0) # fs)) =
           sent s @ concat (map (poseDeliveries Cloud s w) (take 30 ((m0, t0) # fs)))"
    by (simp add: pose_cloud_sent nl)
  then show ?thesis
    by (simp add: burst_local)
qed

theorem pose_rate_window_witness:
  "map_of (poseDataLimits (run Cloud init scenario_paired))
      (sessionId (sock (run Cloud init scenario_paired) 0)) = None
   \<and> sent (poseBurst Cloud (run Cloud init scenario_paired) 0
             ((frame0, 10) # replicate 28 (frame0, 10) @ replicate 2 (frame1, 10))) =
       sent (run Cloud init scenario_paired) @
         replicate 29 (1, PoseCloud ''a'' ''mobile'' 10 ''[]'' ''{}'' (Some 1)) @
         [(0, ErrorEnv ''Invalid message format'' 10)]
   \<and> sent (poseBurst Local (run Cloud init scenario_paired) 0 [(frame0, 10), (frame1, 11)]) =
       sent (run Cloud init scenario_paired) @
         [(1, PoseLocal frame0 10 (Some 1)), (0, ErrorEnv ''Invalid message format'' 11)]"
proof -
  let ?s = "run Cloud init scenario_paired"
  let ?fs = "replicate 28 (frame0, 10::int) @ replicate 2 (frame1, 10)"
  have n: "map_of (poseDataLimits ?s) (sessionId (sock ?s 0)) = None"
    by code_simp
  then have h1: "case map_of (poseDataLimits ?s) (sessionId (sock ?s 0)) of
             None \<Rightarrow> True | Some l \<Rightarrow> resetTime l < 10"
    by simp
  have h2: "\<forall>f\<in>set ?fs. snd f \<le> 10 + 1000"
    by auto
  have d: "concat (map (poseDeliveries Cloud ?s 0) (take 30 ((frame0, 10) # ?fs))) =
        replicate 29 (1, PoseCloud ''a'' ''mobile'' 10 ''[]'' ''{}'' (Some 1)) @
          [(0, ErrorEnv ''Invalid message format'' 10)]"
    by code_simp
  have d': "concat (map (poseDeliveries Local ?s 0) [(frame0, 10), (frame1, 11)]) =
        [(1, PoseLocal frame0 10 (Some 1)), (0, ErrorEnv ''Invalid message format'' 11)]"
    by code_simp
  from pose_rate_window[OF h1 h2, of frame0 "[(frame0, 10), (frame1, 11)]"] d d' n
  show ?thesis by simp
qed

text \<open>
  The development server forwards all 31 frames that arrive within one millisecond. On the
  deployment server a frame at 1000 opens a window that ends at 2000; 29 frames at 2000 fill
  it and 30 frames at 2001 open the next one, so 59 frames that arrive within one
  millisecond are all broadcast: the windows are fixed, not rolling.
\<close>

theorem pose_rate_counterexample:
  "sent (run Local init (scenario_paired @
           replicate 31 (Message 0 (Json (PoseDataMsg frame0)) [] 10))) =
     sent (run Local init scenario_paired) @ replicate 31 (1, PoseLocal frame0 10 (Some 1))
   \<and> sent (poseBurst Cloud (run Cloud init scenario_paired) 0
             ((frame0, 1000) # replicate 29 (frame0, 2000) @ replicate 30 (frame0, 2001))) =
       sent (run Cloud init scenario_paired) @
         (1, PoseCloud ''a'' ''mobile'' 1000 ''[]'' ''{}'' (Some 991)) #
         replicate 29 (1, PoseCloud ''a'' ''mobile'' 2000 ''[]'' ''{}'' (Some 1991)) @
         replicate 30 (1, PoseCloud ''a'' ''mobile'' 2001 ''[]'' ''{}'' (Some 1992))"
  by code_simp

section \<open>Reconnection\<close>

text \<open>
  What \<^verbatim>\<open>handleDisconnection\<close> computes: while attempts remain it schedules one retry after
  the base delay doubled once per attempt made so far; once they are used up it shows
  "Connection Failed" and schedules nothing. A successful open sets the count back to 0.
\<close>

lemma handleDisconnection_backoff:
  "reconnectAttempts m < maxReconnectAttempts m \<Longrightarrow>
   timers (handleDisconnection m) = timers m @ [reconnectDelay m * 2 ^ reconnectAttempts m]"
  by (simp add: handleDisconnection_def Let_def)

lemma handleDisconnection_terminal:
  "\<not> reconnectAttempts m < maxReconnectAttempts m \<Longrightarrow>
   connectionStatus (handleDisconnection m) = StatusConnectionFailed
   \<and> timers (handleDisconnection m) = timers m"
  by (simp add: handleDisconnection_def Let_def)

lemma onopen_resets: "reconnectAttempts (onopen m) = 0"
  by (simp add: onopen_def)

text \<open>The retry itself: \<^verbatim>\<open>connect()\<close> with its default service does nothing.\<close>

lemma connect_default_noop: "connect m ''ngrok'' r = m"
  by (simp add: connect_def cloudServices_def inheritedName_def)

lemma reconnectCallback_no_socket:
  "socket (reconnectCallback m) = socket m \<and> socketLive (reconnectCallback m) = socketLive m
   \<and> socketsOpened (reconnectCallback m) = socketsOpened m
   \<and> timers (reconnectCallback m) = timers m"
  by (simp add: reconnectCallback_def Let_def connect_default_noop)

lemma client_idle:
  "\<not> socketLive m \<Longrightarrow> timers m = [] \<Longrightarrow> client_run m evs = m"
proof (induction evs)
  case Nil
  show ?case by simp
next
  case (Cons ev evs)
  have "client_step m ev = m"
    using Cons.prems by (cases ev) (simp_all add: client_step_def)
  with Cons show ?case by simp
qed

text \<open>
  Claim C9, at the input where the code departs from it. A manager connects to the
  \<open>local\<close> service, the socket opens and later closes. The retry is scheduled after the base
  delay of 1000 ms; when that timer fires the attempt is counted and shown as
  "Reconnecting (1/5)", but no socket is created. From then on no event can reach the
  manager: whatever follows, it stays in that state, with one socket ever opened, no timer
  pending, and "Connection Failed" never shown.
\<close>

theorem reconnect_stalls_after_first_retry:
  "timers (client_run (connect new_manager ''local'' None) [SocketOpen, SocketClose]) = [1000]
   \<and> client_run (connect new_manager ''local'' None)
        ([SocketOpen, SocketClose, TimerFires] @ evs) =
       \<lparr>isConnected = False, reconnectAttempts = 1, maxReconnectAttempts = 5,
        reconnectDelay = 1000, connectionStatus = StatusReconnecting 1 5,
        socket = Some (''ws://192.168.86.208:8080/ws'', None), socketLive = False,
        socketsOpened = 1, timers = [], registrations = 1\<rparr>"
proof -
  let ?m = "\<lparr>isConnected = False, reconnectAttempts = 1, maxReconnectAttempts = 5,
        reconnectDelay = 1000, connectionStatus = StatusReconnecting 1 5,
        socket = Some (''ws://192.168.86.208:8080/ws'', None), socketLive = False,
        socketsOpened = 1, timers = [], registrations = 1\<rparr>"
  have a: "timers (client_run (connect new_manager ''local'' None) [SocketOpen, SocketClose]) = [1000]"
    by (simp add: client_step_def connect_def cloudServices_def new_manager_def onopen_def
          handleDisconnection_def Let_def)
  have b: "client_run (connect new_manager ''local'' None) [SocketOpen, SocketClose, TimerFires] = ?m"
    by (simp add: client_step_def connect_def cloudServices_def inheritedName_def
          new_manager_def onopen_def handleDisconnection_def reconnectCallback_def Let_def)
  have c: "client_run m (xs @ ys) = client_run (client_run m xs) ys" for m xs ys
    by (induction xs arbitrary: m) simp_all
  have "client_run (connect new_manager ''local'' None)
          ([SocketOpen, SocketClose, TimerFires] @ evs) = client_run ?m evs"
    by (simp only: c b)
  also have "\<dots> = ?m"
    by (rule client_idle) simp_all
  finally show ?thesis
    using a by simp
qed

section \<open>Joining the room one is in\<close>

text \<open>
  Claim C10, amended. A session that is the only participant of room \<open>rid\<close>, where \<open>rid\<close>
  is a room code that counts as true in JavaScript and can be printed (every non-empty
  string is one), and that joins \<open>rid\<close> again goes through the leave first: the join
  returns, the room is deleted from the directory and created anew at its end, with
  creation time \<open>now\<close> and the session as its one participant, joined at \<open>now\<close>; the reply
  \<^verbatim>\<open>room_joined\<close> carries \<open>now\<close> as \<^verbatim>\<open>roomCreated\<close> and is the only frame sent. So the room
  the directory holds differs from the one before whenever the clock has moved since the
  room was first created.
\<close>

theorem rejoin_recreates_room:
  assumes "roomId (sock s w) = rid" and "truthy rid" and "printable rid"
    and "map_of (rooms s) rid = Some room"
    and "participants room = [(sessionId (sock s w), p)]"
    and "readyState (sock s w) = OPEN"
  shows "\<not> threw (joinRoom fl s w rid now)
         \<and> rooms (state_of (joinRoom fl s w rid now)) =
           AList.delete rid (rooms s) @
             [(rid, \<lparr>room_id = rid, created = now,
                     participants = [(sessionId (sock s w),
                        \<lparr>p_ws = w, p_deviceType = deviceType (sock s w), joinedAt = now\<rparr>)]\<rparr>)]
         \<and> sent (state_of (joinRoom fl s w rid now)) = sent s @ [(w, RoomJoined rid [] now)]
         \<and> (created room \<noteq> now \<longrightarrow>
              map_of (rooms (state_of (joinRoom fl s w rid now))) rid \<noteq> map_of (rooms s) rid)"
proof -
  define new where "new = \<lparr>room_id = rid, created = now,
                     participants = [(sessionId (sock s w),
                        \<lparr>p_ws = w, p_deviceType = deviceType (sock s w), joinedAt = now\<rparr>)]\<rparr>"
  define s0 where "s0 = s\<lparr>rooms := AList.delete rid (rooms s), serialized := serialized s + 1,
             sock := (sock s)(w := (sock s w)\<lparr>roomId := JNull\<rparr>)\<rparr>"
  define s2 where "s2 = joinRoom_enter s0 w rid now"
  have l: "leaveRoom fl s w = Done s0"
    unfolding s0_def using leaveRoom_sole[of s w room p fl] assms by simp
  have s0: "rooms s0 = AList.delete rid (rooms s)" "sent s0 = sent s"
    "sessionId (sock s0 w) = sessionId (sock s w)" "deviceType (sock s0 w) = deviceType (sock s w)"
    "readyState (sock s0 w) = OPEN"
    using assms(6) by (simp_all add: s0_def)
  have absent: "rid \<notin> fst ` set (rooms s0)"
    unfolding s0(1) by (rule delete_notin_dom)
  have none: "map_of (rooms s0) rid = None"
    by (simp add: s0(1) delete_conv')
  have "rooms s2 = rooms s0 @ [(rid, new)]"
    unfolding s2_def joinRoom_enter_def Let_def
    by (simp add: none update_absent[OF absent] s0(3,4) new_def)
  then have r2: "rooms s2 = AList.delete rid (rooms s) @ [(rid, new)]"
    by (simp add: s0(1))
  have k2: "sock s2 = (sock s0)(w := (sock s0 w)\<lparr>roomId := rid\<rparr>)" "sent s2 = sent s"
    unfolding s2_def by (simp_all add: s0)
  have m: "map_of (rooms s2) rid = Some new"
    by (simp add: r2 delete_conv' map_add_def)
  have pl: "plistOf s2 rid = [(sessionId (sock s w), deviceType (sock s w), now)]"
    by (simp add: plistOf_def participantsOf_def m k2 s0) (simp add: new_def s0)
  have cr: "createdOf s2 rid = now"
    by (simp add: createdOf_def m) (simp add: new_def)
  have op: "readyState (sock s2 w) = OPEN" and sid: "sessionId (sock s2 w) = sessionId (sock s w)"
    by (simp_all add: k2 s0)
  have j: "joinRoom fl s w rid now = joinRoom_notify fl s2 w rid now"
    using assms(1,2,3) by (simp add: joinRoom_stages l joinRoom_after_def s2_def)
  have t: "\<not> threw (joinRoom fl s w rid now)"
    using assms(3) by (simp add: j notify_threw)
  have r: "rooms (state_of (joinRoom fl s w rid now)) = AList.delete rid (rooms s) @ [(rid, new)]"
    by (simp add: j r2)
  have pn: "participants new = [(sessionId (sock s w),
                        \<lparr>p_ws = w, p_deviceType = deviceType (sock s w), joinedAt = now\<rparr>)]"
    by (simp add: new_def)
  have st: "sent (state_of (joinRoom fl s w rid now)) = sent s @ [(w, RoomJoined rid [] now)]"
    unfolding j joinRoom_notify_def joinRoom_told_def Let_def pl cr sid
    using op m assms(3) by (auto simp: send_def broadcastToRoom_def pn k2)
  have "created room \<noteq> now \<longrightarrow>
          map_of (rooms (state_of (joinRoom fl s w rid now))) rid \<noteq> map_of (rooms s) rid"
    using assms(4) m by (auto simp: r r2 new_def)
  with t r st show ?thesis unfolding new_def by blast
qed

theorem rejoin_recreates_room_witness:
  "roomId (sock (run Cloud init scenario_join) 0) = JStr ''R''
   \<and> truthy (JStr ''R'') \<and> printable (JStr ''R'')
   \<and> map_of (rooms (run Cloud init scenario_join)) (JStr ''R'') =
       Some \<lparr>room_id = JStr ''R'', created = 6,
             participants = [(''a'', \<lparr>p_ws = 0, p_deviceType = ''mobile'', joinedAt = 6\<rparr>)]\<rparr>
   \<and> readyState (sock (run Cloud init scenario_join) 0) = OPEN
   \<and> \<not> threw (joinRoom Cloud (run Cloud init scenario_join) 0 (JStr ''R'') 9)
   \<and> rooms (state_of (joinRoom Cloud (run Cloud init scenario_join) 0 (JStr ''R'') 9)) =
       [(JStr ''R'', \<lparr>room_id = JStr ''R'', created = 9,
           participants = [(''a'', \<lparr>p_ws = 0, p_deviceType = ''mobile'', joinedAt = 9\<rparr>)]\<rparr>)]
   \<and> sent (state_of (joinRoom Cloud (run Cloud init scenario_join) 0 (JStr ''R'') 9)) =
       sent (run Cloud init scenario_join) @ [(0, RoomJoined (JStr ''R'') [] 9)]
   \<and> map_of (rooms (state_of (joinRoom Cloud (run Cloud init scenario_join) 0 (JStr ''R'') 9)))
         (JStr ''R'')
       \<noteq> map_of (rooms (run Cloud init scenario_join)) (JStr ''R'')"
proof -
  let ?s = "run Cloud init scenario_join"
  let ?p = "\<lparr>p_ws = 0, p_deviceType = ''mobile'', joinedAt = 6\<rparr>"
  let ?room = "\<lparr>room_id = JStr ''R'', created = 6, participants = [(''a'', ?p)]\<rparr>"
  have h1: "roomId (sock ?s 0) = JStr ''R''"
    by code_simp
  have h2: "truthy (JStr ''R'')" and h2': "printable (JStr ''R'')"
    by simp_all
  have h3: "map_of (rooms ?s) (JStr ''R'') = Some ?room"
    by code_simp
  have a: "sessionId (sock ?s 0) = ''a''" "deviceType (sock ?s 0) = ''mobile''"
    by code_simp+
  have h4: "participants ?room = [(sessionId (sock ?s 0), ?p)]"
    by (simp add: a)
  have h5: "readyState (sock ?s 0) = OPEN"
    by code_simp
  have d: "AList.delete (JStr ''R'') (rooms ?s) = []"
    by code_simp
  from rejoin_recreates_room[OF h1 h2 h2' h3 h4 h5, of Cloud 9] h1 h3 h5 a d
  show ?thesis by simp
qed

text \<open>
  The claim as written, for every room code, fails on a code that counts as false. A
  session that is the only participant of the room with the empty code and joins it again
  at time 9 does not go through the leave: the room stays in the directory with its creation
  time 6, \<^verbatim>\<open>room_joined\<close> reports 6, and only the entry's \<^verbatim>\<open>joinedAt\<close> moves. And for room
  \<open>R\<close> a second join in the millisecond of the first recreates a room equal to the one
  deleted, so the creation time that \<^verbatim>\<open>room_joined\<close> reports is the same as before.
  Last, a session that is alone in the room it named by \<^verbatim>\<open>{"toString":1}\<close> and sends that
  frame again: the leave deletes the room and throws while it prints the id, so no room is
  created and the reply is an \<^verbatim>\<open>error\<close> envelope.
\<close>

theorem rejoin_keeps_room_counterexample:
  "roomId (sock (run Cloud init scenario_join_empty) 0) = JStr []
   \<and> rooms (run Cloud init scenario_join_empty) =
       [(JStr [], \<lparr>room_id = JStr [], created = 6,
           participants = [(''a'', \<lparr>p_ws = 0, p_deviceType = ''mobile'', joinedAt = 6\<rparr>)]\<rparr>)]
   \<and> rooms (run Cloud init
         (scenario_join_empty @ [Message 0 (Json (JoinRoomMsg (JStr []))) ''r'' 9])) =
       [(JStr [], \<lparr>room_id = JStr [], created = 6,
           participants = [(''a'', \<lparr>p_ws = 0, p_deviceType = ''mobile'', joinedAt = 9\<rparr>)]\<rparr>)]
   \<and> sent (run Cloud init
         (scenario_join_empty @ [Message 0 (Json (JoinRoomMsg (JStr []))) ''r'' 9])) =
       sent (run Cloud init scenario_join_empty) @ [(0, RoomJoined (JStr []) [] 6)]
   \<and> rooms (run Cloud init (scenario_join @ [Message 0 (Json (JoinRoomMsg (JStr ''R''))) ''r'' 6])) =
       rooms (run Cloud init scenario_join)
   \<and> sent (run Cloud init (scenario_join @ [Message 0 (Json (JoinRoomMsg (JStr ''R''))) ''r'' 6])) =
       sent (run Cloud init scenario_join) @ [(0, RoomJoined (JStr ''R'') [] 6)]
   \<and> sent (run Cloud init scenario_join) =
       [(0, Connected ''a'' ''mobile'' 5 ''g2''), (0, RoomJoined (JStr ''R'') [] 6)]
   \<and> participantsOf (run Cloud init scenario_unprintable) (JObj 0 False) =
       [(''a'', \<lparr>p_ws = 0, p_deviceType = ''mobile'', joinedAt = 6\<rparr>)]
   \<and> rooms (run Cloud init
         (scenario_unprintable @ [Message 0 (Json (JoinRoomMsg (JObj 1 False))) ''r'' 9])) = []
   \<and> sent (run Cloud init
         (scenario_unprintable @ [Message 0 (Json (JoinRoomMsg (JObj 1 False))) ''r'' 9])) =
       sent (run Cloud init scenario_unprintable) @ [(0, ErrorEnv ''Invalid message format'' 9)]"
  by code_simp

end
